theory Spec2Isabelle
  imports Main
begin

section \<open>Python values of \<^verbatim>\<open>backAnd/api/ai_providers.py\<close>\<close>

text \<open>
  A Python \<^verbatim>\<open>str\<close> is a sequence of Unicode code points, and \<^verbatim>\<open>len\<close> counts code
  points; the prompts and canned answers of the module are Cyrillic. A text is therefore
  a list of code points. ASCII literals of the source are written with \<open>asc\<close>.
\<close>

type_synonym ustr = "nat list"

definition asc :: "string \<Rightarrow> ustr" where
  "asc s = map of_char s"

text \<open>
  What \<^verbatim>\<open>json.loads\<close> returns and \<^verbatim>\<open>json.dumps\<close> takes. A dict is an association
  list with each key once. Numbers are integers (no float decides a branch of the module).
  A streamed event is the value handed to \<^verbatim>\<open>json.dumps\<close>.
\<close>

datatype json =
    JNull
  | JBool bool
  | JNum int
  | JStr ustr
  | JArr "json list"
  | JObj "(string \<times> json) list"

type_synonym event = json

text \<open>The exceptions the module meets; each carries the text \<^verbatim>\<open>str(e)\<close> renders
  (the texts written out below are those of CPython, without their quotation marks).\<close>

datatype exn =
    ValueError ustr
  | TypeError ustr
  | KeyError ustr
  | IndexError ustr
  | AttributeError ustr
  | JSONDecodeError ustr
  | UnicodeDecodeError ustr
  | RequestException ustr

fun str_exn :: "exn \<Rightarrow> ustr" where
  "str_exn (ValueError m) = m"
| "str_exn (TypeError m) = m"
| "str_exn (KeyError m) = m"
| "str_exn (IndexError m) = m"
| "str_exn (AttributeError m) = m"
| "str_exn (JSONDecodeError m) = m"
| "str_exn (UnicodeDecodeError m) = m"
| "str_exn (RequestException m) = m"

text \<open>
  What a call of \<^verbatim>\<open>generate_completion\<close> hands to its caller. A Python function whose
  body contains \<^verbatim>\<open>yield\<close> is a generator function: calling it runs none of its body and
  returns a generator object. Iterating the object runs the body; every \<^verbatim>\<open>yield\<close>
  delivers one item, and \<^verbatim>\<open>return v\<close> ends the iteration (\<^verbatim>\<open>v\<close> travels in the
  \<^verbatim>\<open>StopIteration\<close> and a \<^verbatim>\<open>for\<close> loop drops it). \<open>PGen evs end\<close> is a generator
  object whose iteration delivers \<open>evs\<close> and then ends with \<open>end\<close>: \<open>Inr v\<close> for
  \<^verbatim>\<open>return v\<close> (\<open>PNone\<close> when the body runs off its end), \<open>Inl e\<close> for an exception
  that leaves the body. \<open>PJson\<close> is any other value, taken out of a parsed body.
\<close>

datatype pyval =
    PNone
  | PStr ustr
  | PJson json
  | PGen "event list" "exn + pyval"

text \<open>A value taken out of a parsed body and handed on: a string, \<^verbatim>\<open>None\<close>, or
  whatever else the body held there.\<close>

fun of_json :: "json \<Rightarrow> pyval" where
  "of_json (JStr s) = PStr s"
| "of_json JNull = PNone"
| "of_json v = PJson v"

fun is_str :: "pyval \<Rightarrow> bool" where
  "is_str (PStr s) = True"
| "is_str v = False"

fun is_generator :: "pyval \<Rightarrow> bool" where
  "is_generator (PGen evs e) = True"
| "is_generator v = False"

text \<open>The items a consumer receives from \<^verbatim>\<open>for chunk in stream\<close>.\<close>

fun delivered :: "pyval \<Rightarrow> event list" where
  "delivered (PGen evs e) = evs"
| "delivered v = []"

subsection \<open>Events\<close>

fun field :: "string \<Rightarrow> json \<Rightarrow> json option" where
  "field k (JObj kvs) = map_of kvs k"
| "field k v = None"

definition is_done :: "event \<Rightarrow> bool" where
  "is_done ev = (field ''done'' ev = Some (JBool True))"

definition is_error :: "event \<Rightarrow> bool" where
  "is_error ev = (field ''error'' ev \<noteq> None)"

definition error_event :: "ustr \<Rightarrow> event" where
  "error_event msg = JObj [(''error'', JStr msg)]"

subsection \<open>Texts\<close>

text \<open>
  \<^verbatim>\<open>"needle" in text\<close>, \<^verbatim>\<open>text.startswith(p)\<close>, \<^verbatim>\<open>text.find(needle)\<close> and
  \<^verbatim>\<open>text.strip()\<close>. \<open>is_space\<close> is the whitespace of \<^verbatim>\<open>str.strip\<close> and of \<^verbatim>\<open>\s\<close>.
\<close>

definition startswith :: "'a list \<Rightarrow> 'a list \<Rightarrow> bool" where
  "startswith s p = (take (length p) s = p)"

fun contains :: "'a list \<Rightarrow> 'a list \<Rightarrow> bool" where
  "contains needle [] = (needle = [])"
| "contains needle (x # xs) = (startswith (x # xs) needle \<or> contains needle xs)"

fun find_sub :: "'a list \<Rightarrow> 'a list \<Rightarrow> nat option" where
  "find_sub needle [] = (if needle = [] then Some 0 else None)"
| "find_sub needle (x # xs) =
     (if startswith (x # xs) needle then Some 0 else map_option Suc (find_sub needle xs))"

definition is_space :: "nat \<Rightarrow> bool" where
  "is_space c = (c \<in> set [9, 10, 11, 12, 13, 28, 29, 30, 31, 32, 133, 160, 5760, 8192, 8193,
     8194, 8195, 8196, 8197, 8198, 8199, 8200, 8201, 8202, 8232, 8233, 8239, 8287, 12288])"

definition strip :: "ustr \<Rightarrow> ustr" where
  "strip s = rev (dropWhile is_space (rev (dropWhile is_space s)))"

subsection \<open>Reading a parsed body\<close>

text \<open>
  The operations the module applies to what \<^verbatim>\<open>json.loads\<close> and \<^verbatim>\<open>response.json()\<close>
  return, each with the exception Python raises when the value has the wrong shape.
\<close>

fun truthy :: "json \<Rightarrow> bool" where
  "truthy JNull = False"
| "truthy (JBool b) = b"
| "truthy (JNum n) = (n \<noteq> 0)"
| "truthy (JStr s) = (s \<noteq> [])"
| "truthy (JArr xs) = (xs \<noteq> [])"
| "truthy (JObj kvs) = (kvs \<noteq> [])"

text \<open>\<^verbatim>\<open>v["key"]\<close>\<close>

fun getitem :: "json \<Rightarrow> string \<Rightarrow> exn + json" where
  "getitem (JObj kvs) k =
     (case map_of kvs k of None \<Rightarrow> Inl (KeyError (asc k)) | Some v \<Rightarrow> Inr v)"
| "getitem (JArr xs) k = Inl (TypeError (asc ''list indices must be integers or slices, not str''))"
| "getitem (JStr s) k = Inl (TypeError (asc ''string indices must be integers''))"
| "getitem v k = Inl (TypeError (asc ''object is not subscriptable''))"

text \<open>\<^verbatim>\<open>v[0]\<close>\<close>

fun getitem0 :: "json \<Rightarrow> exn + json" where
  "getitem0 (JArr (x # xs)) = Inr x"
| "getitem0 (JArr []) = Inl (IndexError (asc ''list index out of range''))"
| "getitem0 (JStr (c # cs)) = Inr (JStr [c])"
| "getitem0 (JStr []) = Inl (IndexError (asc ''string index out of range''))"
| "getitem0 (JObj kvs) = Inl (KeyError (asc ''0''))"
| "getitem0 v = Inl (TypeError (asc ''object is not subscriptable''))"

text \<open>\<^verbatim>\<open>"key" in v\<close>\<close>

fun has_key :: "string \<Rightarrow> json \<Rightarrow> exn + bool" where
  "has_key k (JObj kvs) = Inr (map_of kvs k \<noteq> None)"
| "has_key k (JArr xs) = Inr (JStr (asc k) \<in> set xs)"
| "has_key k (JStr s) = Inr (contains (asc k) s)"
| "has_key k v = Inl (TypeError (asc ''argument is not iterable''))"

text \<open>\<^verbatim>\<open>v.get("key", default)\<close>\<close>

fun dict_get :: "json \<Rightarrow> string \<Rightarrow> json \<Rightarrow> exn + json" where
  "dict_get (JObj kvs) k d = Inr (case map_of kvs k of None \<Rightarrow> d | Some v \<Rightarrow> v)"
| "dict_get v k d = Inl (AttributeError (asc ''object has no attribute get''))"

text \<open>\<^verbatim>\<open>len(v)\<close>\<close>

fun json_len :: "json \<Rightarrow> exn + nat" where
  "json_len (JStr s) = Inr (length s)"
| "json_len (JArr xs) = Inr (length xs)"
| "json_len (JObj kvs) = Inr (length kvs)"
| "json_len v = Inl (TypeError (asc ''object has no len()''))"

text \<open>\<^verbatim>\<open>content += v\<close> on a \<^verbatim>\<open>str\<close>: only a \<^verbatim>\<open>str\<close> can be added.\<close>

fun as_text :: "json \<Rightarrow> exn + ustr" where
  "as_text (JStr s) = Inr s"
| "as_text v = Inl (TypeError (asc ''can only concatenate str to str''))"

definition bind :: "exn + 'a \<Rightarrow> ('a \<Rightarrow> exn + 'b) \<Rightarrow> exn + 'b" where
  "bind x f = (case x of Inl e \<Rightarrow> Inl e | Inr v \<Rightarrow> f v)"

section \<open>FallbackProvider\<close>

subsection \<open>\<^verbatim>\<open>_stream_fallback\<close>\<close>

text \<open>\<^verbatim>\<open>range(0, stop, step)\<close> for a positive step, and the slice \<^verbatim>\<open>s[i:j]\<close>.\<close>

definition py_range_step :: "nat \<Rightarrow> nat \<Rightarrow> nat list" where
  "py_range_step stop step = map (\<lambda>k. k * step) [0 ..< (stop + step - 1) div step]"

definition slice :: "nat \<Rightarrow> nat \<Rightarrow> 'a list \<Rightarrow> 'a list" where
  "slice i j xs = take (j - i) (drop i xs)"

definition chunk_size_of :: "'a list \<Rightarrow> nat" where
  "chunk_size_of response = max 5 (length response div 10)"

definition chunks_of :: "'a list \<Rightarrow> 'a list list" where
  "chunks_of response =
     (let chunk_size = chunk_size_of response
      in map (\<lambda>i. slice i (i + chunk_size) response)
           (py_range_step (length response) chunk_size))"

definition fallback_event :: "nat \<Rightarrow> nat \<Rightarrow> ustr \<Rightarrow> event" where
  "fallback_event n i chunk =
     JObj [(''model'', JStr (asc ''fallback'')),
           (''response'', JStr chunk),
           (''done'', JBool (int i = int n - 1))]"

definition stream_fallback_events :: "ustr \<Rightarrow> event list" where
  "stream_fallback_events response =
     (let chunks = chunks_of response
      in map (\<lambda>(i, chunk). fallback_event (length chunks) i chunk) (enumerate 0 chunks))"

definition stream_fallback :: "ustr \<Rightarrow> pyval" where
  "stream_fallback response = PGen (stream_fallback_events response) (Inr PNone)"

text \<open>The chunk size the specification words: the ceiling of a tenth, at least five.\<close>

definition spec_chunk_size :: "nat \<Rightarrow> nat" where
  "spec_chunk_size n = max 5 ((n + 9) div 10)"

section \<open>The provider interface (\<^verbatim>\<open>AIProvider\<close>)\<close>

text \<open>
  One entry of a model catalogue: every catalogue the providers build carries
  \<^verbatim>\<open>name\<close>, the only key the gateway and the team read.
\<close>

record model_info =
  name :: ustr
  description :: ustr

text \<open>
  A provider instance, as the gateway sees it through the abstract base class: what its
  three methods answer. \<open>generate_completion\<close> takes the model, the prompt and the
  \<^verbatim>\<open>stream\<close> flag (the temperature, a float that only travels to the backend, is left
  out).
\<close>

record provider =
  check_connection :: bool
  list_models :: "model_info list"
  generate_completion :: "ustr \<Rightarrow> ustr \<Rightarrow> bool \<Rightarrow> pyval"

section \<open>AIService\<close>

text \<open>
  The registry is a dict in insertion order: an association list with each name once.
\<close>

record ai_service =
  use_fallback :: bool
  default_provider :: string
  providers :: "(string \<times> provider) list"

text \<open>
  The first two statements of \<^verbatim>\<open>list_models\<close> and \<^verbatim>\<open>generate_completion\<close>: a name
  that is \<^verbatim>\<open>None\<close> or empty, then a name that is not registered, becomes the default.
\<close>

definition resolve_provider :: "ai_service \<Rightarrow> string option \<Rightarrow> string" where
  "resolve_provider svc provider =
     (let provider = (case provider of
                        None \<Rightarrow> default_provider svc
                      | Some p \<Rightarrow> if p = [] then default_provider svc else p)
      in if map_of (providers svc) provider = None then default_provider svc else provider)"

definition fallback_list_models :: "ai_service \<Rightarrow> exn + model_info list" where
  "fallback_list_models svc =
     (case map_of (providers svc) ''fallback'' of
        None \<Rightarrow> Inl (KeyError (asc ''fallback''))
      | Some fb \<Rightarrow> Inr (list_models fb))"

definition AIService_list_models :: "ai_service \<Rightarrow> string option \<Rightarrow> exn + model_info list" where
  "AIService_list_models svc provider =
     (let provider = resolve_provider svc provider
      in case map_of (providers svc) provider of
           None \<Rightarrow> Inl (KeyError (asc provider))
         | Some ai_provider \<Rightarrow>
             if \<not> check_connection ai_provider then
               (if use_fallback svc then fallback_list_models svc else Inr [])
             else
               (let models = list_models ai_provider
                in if models = [] \<and> use_fallback svc then fallback_list_models svc
                   else Inr models))"

definition unavailable_message :: "string \<Rightarrow> ustr" where
  "unavailable_message provider =
     asc ''Error: Provider '' @ [39] @ asc provider @ [39] @
     asc '' is not available and fallback is disabled.''"

definition unavailable_event :: "string \<Rightarrow> event" where
  "unavailable_event provider =
     error_event (asc ''Provider '' @ [39] @ asc provider @ [39] @
       asc '' is not available and fallback is disabled.'')"

text \<open>
  \<^verbatim>\<open>AIService.generate_completion\<close>. Its body holds a \<^verbatim>\<open>yield\<close> (the error event of
  the branch with the fallback disabled), so every call returns a generator object; each
  \<^verbatim>\<open>return\<close> of the body ends that generator. After the \<^verbatim>\<open>yield\<close> the body goes on to
  the last statement, the call of the resolved provider.
\<close>

definition AIService_generate_completion ::
    "ai_service \<Rightarrow> ustr \<Rightarrow> ustr \<Rightarrow> string option \<Rightarrow> bool \<Rightarrow> pyval" where
  "AIService_generate_completion svc model prompt provider stream =
     (let provider = resolve_provider svc provider
      in case map_of (providers svc) provider of
           None \<Rightarrow> PGen [] (Inl (KeyError (asc provider)))
         | Some ai_provider \<Rightarrow>
             if \<not> check_connection ai_provider then
               (if use_fallback svc then
                  (case map_of (providers svc) ''fallback'' of
                     None \<Rightarrow> PGen [] (Inl (KeyError (asc ''fallback'')))
                   | Some fb \<Rightarrow> PGen [] (Inr (generate_completion fb model prompt stream)))
                else if stream then
                  PGen [unavailable_event provider]
                    (Inr (generate_completion ai_provider model prompt stream))
                else PGen [] (Inr (PStr (unavailable_message provider))))
             else PGen [] (Inr (generate_completion ai_provider model prompt stream)))"

section \<open>AITeam\<close>

text \<open>
  The loop of \<^verbatim>\<open>collaborate\<close> that picks a model for each provider. A Python \<^verbatim>\<open>for\<close>
  over a list reads the list by a running index, and \<^verbatim>\<open>providers.remove(provider)\<close>
  deletes from the very list being read: \<open>i\<close> is the index of the next read,
  \<open>names\<close> the list \<^verbatim>\<open>providers\<close> as it stands. An exception of \<^verbatim>\<open>list_models\<close> leaves the loop
  with the list as mutated so far.
\<close>

function select_models ::
    "ai_service \<Rightarrow> string list \<Rightarrow> nat \<Rightarrow> ustr list \<Rightarrow> string list \<times> (exn + ustr list)" where
  "select_models svc names i models =
     (if i < length names then
        (let provider = names ! i
         in case AIService_list_models svc (Some provider) of
              Inl e \<Rightarrow> (names, Inl e)
            | Inr provider_models \<Rightarrow>
                (case provider_models of
                   m # ms \<Rightarrow> select_models svc names (Suc i) (models @ [name m])
                 | [] \<Rightarrow> select_models svc (remove1 provider names) (Suc i) models))
      else (names, Inr models))"
  by pat_completeness auto
termination
proof (relation "measure (\<lambda>(svc, names, i, models). length names - i)")
  show "wf (measure (\<lambda>(svc, names, i, models). length names - i))" by simp
next
  fix svc :: ai_service and names :: "string list" and i :: nat and models :: "ustr list"
    and x and xa :: "model_info list" and m ms
  assume "i < length names"
  then show "((svc, names, Suc i, models @ [name m]), svc, names, i, models)
      \<in> measure (\<lambda>(svc, names, i, models). length names - i)"
    by simp
next
  fix svc :: ai_service and names :: "string list" and i :: nat and models :: "ustr list"
    and x
  assume i: "i < length names" and x: "x = names ! i"
  then have "x \<in> set names" by simp
  then have "length (remove1 x names) = length names - 1"
    by (simp add: length_remove1)
  then show "((svc, remove1 x names, Suc i, models), svc, names, i, models)
      \<in> measure (\<lambda>(svc, names, i, models). length names - i)"
    using i by simp
qed

declare select_models.simps [simp del]

text \<open>What \<^verbatim>\<open>str()\<close> renders inside the f-string of the meta prompt: a \<^verbatim>\<open>str\<close> is itself;
  the text of any other object (for a generator object it holds an address) is the
  parameter \<open>repr\<close>.\<close>

definition py_str :: "(pyval \<Rightarrow> ustr) \<Rightarrow> pyval \<Rightarrow> ustr" where
  "py_str repr v = (case v of PStr s \<Rightarrow> s | _ \<Rightarrow> repr v)"

function show_nat :: "nat \<Rightarrow> ustr" where
  "show_nat n = (if n < 10 then [48 + n] else show_nat (n div 10) @ [48 + n mod 10])"
  by pat_completeness auto
termination
  by (relation "measure id") auto

declare show_nat.simps [simp del]

definition meta_header :: ustr where
  "meta_header = [
     1058, 1099, 32, 45, 32, 1084, 1077, 1090, 1072, 1072, 1085, 1072, 1083, 1080, 1079,
     1072, 1090, 1086, 1088, 44, 32, 1082, 1086, 1090, 1086, 1088, 1099, 1081, 32, 1086,
     1073, 1098, 1077, 1076, 1080, 1085, 1103, 1077, 1090, 32, 1080, 32, 1091, 1083, 1091,
     1095, 1096, 1072, 1077, 1090, 32, 1086, 1090, 1074, 1077, 1090, 1099, 32, 1086, 1090,
     32, 1088, 1072, 1079, 1085, 1099, 1093, 32, 1084, 1086, 1076, 1077, 1083, 1077, 1081,
     32, 1048, 1048, 46, 10, 1048, 1089, 1093, 1086, 1076, 1085, 1099, 1081, 32, 1079,
     1072, 1087, 1088, 1086, 1089, 58, 32]"

definition meta_answers :: ustr where
  "meta_answers = [
     10, 10, 1054, 1090, 1074, 1077, 1090, 1099, 32, 1086, 1090, 32, 1088, 1072, 1079,
     1085, 1099, 1093, 32, 1084, 1086, 1076, 1077, 1083, 1077, 1081, 58, 10]"

definition meta_model :: ustr where
  "meta_model = [10, 35, 35, 35, 32, 1052, 1086, 1076, 1077, 1083, 1100, 32]"

definition meta_footer :: ustr where
  "meta_footer = [
     10, 1057, 1086, 1079, 1076, 1072, 1081, 32, 1077, 1076, 1080, 1085, 1099, 1081, 44,
     32, 1089, 1086, 1075, 1083, 1072, 1089, 1086, 1074, 1072, 1085, 1085, 1099, 1081, 32,
     1080, 32, 1091, 1083, 1091, 1095, 1096, 1077, 1085, 1085, 1099, 1081, 32, 1086, 1090,
     1074, 1077, 1090, 44, 32, 1082, 1086, 1090, 1086, 1088, 1099, 1081, 32, 1080, 1089,
     1087, 1086, 1083, 1100, 1079, 1091, 1077, 1090, 32, 1083, 1091, 1095, 1096, 1080,
     1077, 32, 1095, 1072, 1089, 1090, 1080, 32, 1080, 1079, 32, 1082, 1072, 1078, 1076,
     1086, 1075, 1086, 32, 1086, 1090, 1074, 1077, 1090, 1072, 46]"

text \<open>One collected answer: the dict with \<^verbatim>\<open>provider\<close>, \<^verbatim>\<open>model\<close> and
  \<^verbatim>\<open>response\<close>.\<close>

record team_answer =
  ta_provider :: string
  ta_model :: ustr
  ta_response :: pyval

definition collect_responses ::
    "ai_service \<Rightarrow> ustr \<Rightarrow> string list \<Rightarrow> ustr list \<Rightarrow> team_answer list" where
  "collect_responses svc prompt names models =
     map (\<lambda>(provider, model).
            \<lparr>ta_provider = provider, ta_model = model,
             ta_response = AIService_generate_completion svc model prompt (Some provider) False\<rparr>)
       (zip names models)"

definition meta_section :: "(pyval \<Rightarrow> ustr) \<Rightarrow> nat \<times> team_answer \<Rightarrow> ustr" where
  "meta_section repr ir =
     (case ir of (i, resp) \<Rightarrow>
        meta_model @ show_nat (i + 1) @ asc '' ('' @ asc (ta_provider resp) @ asc ''/'' @
        ta_model resp @ asc ''):'' @ [10] @ py_str repr (ta_response resp) @ [10])"

definition build_meta_prompt :: "(pyval \<Rightarrow> ustr) \<Rightarrow> ustr \<Rightarrow> team_answer list \<Rightarrow> ustr" where
  "build_meta_prompt repr prompt responses =
     meta_header @ prompt @ meta_answers @
     concat (map (meta_section repr) (enumerate 0 responses)) @ meta_footer"

definition meta_providers :: "string list" where
  "meta_providers =
     [''openai'', ''anthropic'', ''azure_openai'', ''gemini'', ''ollama'', ''huggingface'']"

text \<open>
  The loop over \<^verbatim>\<open>meta_providers\<close>: \<open>None\<close> when it ends without a \<^verbatim>\<open>return\<close>,
  otherwise the generation call it issued and what \<^verbatim>\<open>collaborate\<close> returns or raises.
\<close>

fun meta_analysis ::
    "ai_service \<Rightarrow> ustr \<Rightarrow> string list \<Rightarrow> ((string \<times> ustr) list \<times> (exn + pyval)) option" where
  "meta_analysis svc meta_prompt [] = None"
| "meta_analysis svc meta_prompt (provider # rest) =
     (case map_of (providers svc) provider of
        None \<Rightarrow> meta_analysis svc meta_prompt rest
      | Some p \<Rightarrow>
          if check_connection p then
            (case AIService_list_models svc (Some provider) of
               Inl e \<Rightarrow> Some ([], Inl e)
             | Inr provider_models \<Rightarrow>
                 (case provider_models of
                    m # ms \<Rightarrow>
                      Some ([(provider, name m)],
                        Inr (AIService_generate_completion svc (name m) meta_prompt
                               (Some provider) False))
                  | [] \<Rightarrow> meta_analysis svc meta_prompt rest))
          else meta_analysis svc meta_prompt rest)"

text \<open>\<^verbatim>\<open>len(x)\<close>: a generator object has no length.\<close>

fun py_len :: "pyval \<Rightarrow> exn + nat" where
  "py_len (PStr s) = Inr (length s)"
| "py_len (PGen evs e) = Inl (TypeError (asc ''object of type generator has no len()''))"
| "py_len PNone = Inl (TypeError (asc ''object of type NoneType has no len()''))"
| "py_len (PJson v) = json_len v"

text \<open>
  \<^verbatim>\<open>max(responses, key=lambda x: len(x["response"]))\<close>: the key of each item is taken in
  order, and a later item replaces the best one only when its key is strictly greater.
\<close>

fun max_scan :: "nat \<Rightarrow> team_answer \<Rightarrow> team_answer list \<Rightarrow> exn + team_answer" where
  "max_scan k best [] = Inr best"
| "max_scan k best (r # rs) =
     (case py_len (ta_response r) of
        Inl e \<Rightarrow> Inl e
      | Inr k' \<Rightarrow> if k < k' then max_scan k' r rs else max_scan k best rs)"

definition max_by_len :: "team_answer list \<Rightarrow> exn + team_answer" where
  "max_by_len responses =
     (case responses of
        [] \<Rightarrow> Inl (ValueError (asc ''max() arg is an empty sequence''))
      | r # rs \<Rightarrow>
          (case py_len (ta_response r) of
             Inl e \<Rightarrow> Inl e
           | Inr k \<Rightarrow> max_scan k r rs))"

text \<open>
  The first half of \<^verbatim>\<open>collaborate\<close>, up to the length check: the providers and models
  after resolution, and the caller's list object after it. \<^verbatim>\<open>not providers\<close> holds for
  \<^verbatim>\<open>None\<close> and for the empty list; then \<^verbatim>\<open>providers\<close> is bound to a fresh list and
  the caller's object is no longer touched. Otherwise the loop works on the caller's object.
\<close>

record resolution =
  res_caller :: "string list option"
  res_providers :: "string list"
  res_models :: "exn + ustr list"

definition falsy_list :: "'a list option \<Rightarrow> bool" where
  "falsy_list xs = (case xs of None \<Rightarrow> True | Some ys \<Rightarrow> ys = [])"

definition available_providers :: "ai_service \<Rightarrow> string list" where
  "available_providers svc =
     map fst (filter (\<lambda>(p, ai_provider). check_connection ai_provider) (providers svc))"

definition resolve_selection ::
    "ai_service \<Rightarrow> string list option \<Rightarrow> ustr list option \<Rightarrow> resolution" where
  "resolve_selection svc names models =
     (let aliased = \<not> falsy_list names;
          ps = (case names of
                  None \<Rightarrow> available_providers svc
                | Some l \<Rightarrow> if l = [] then available_providers svc else l)
      in case models of
           Some (m # ms) \<Rightarrow>
             \<lparr>res_caller = names, res_providers = ps, res_models = Inr (m # ms)\<rparr>
         | _ \<Rightarrow>
             (case select_models svc ps 0 [] of (ps', r) \<Rightarrow>
                \<lparr>res_caller = (if aliased then Some ps' else names),
                 res_providers = ps', res_models = r\<rparr>))"

definition mismatch_error :: exn where
  "mismatch_error = ValueError (asc ''Number of providers must match number of models'')"

record collab_result =
  caller_providers :: "string list option"
  generation_calls :: "(string \<times> ustr) list"
  outcome :: "exn + pyval"

definition collaborate ::
    "(pyval \<Rightarrow> ustr) \<Rightarrow> ai_service \<Rightarrow> ustr \<Rightarrow> string list option \<Rightarrow> ustr list option
       \<Rightarrow> collab_result" where
  "collaborate repr svc prompt names models =
     (let res = resolve_selection svc names models
      in case res_models res of
           Inl e \<Rightarrow>
             \<lparr>caller_providers = res_caller res, generation_calls = [], outcome = Inl e\<rparr>
         | Inr ms \<Rightarrow>
             if length (res_providers res) \<noteq> length ms then
               \<lparr>caller_providers = res_caller res, generation_calls = [],
                outcome = Inl mismatch_error\<rparr>
             else
               (let responses = collect_responses svc prompt (res_providers res) ms;
                    calls = zip (res_providers res) ms;
                    meta_prompt = build_meta_prompt repr prompt responses
                in case meta_analysis svc meta_prompt meta_providers of
                     Some (meta_calls, r) \<Rightarrow>
                       \<lparr>caller_providers = res_caller res,
                        generation_calls = calls @ meta_calls, outcome = r\<rparr>
                   | None \<Rightarrow>
                       \<lparr>caller_providers = res_caller res, generation_calls = calls,
                        outcome = map_sum id ta_response (max_by_len responses)\<rparr>))"

section \<open>FallbackProvider: the canned answers\<close>

subsection \<open>The two regular expressions of \<^verbatim>\<open>_get_fallback_response\<close>\<close>

text \<open>
  \<^verbatim>\<open>re.search\<close> tries the start positions from the left and, at each, the alternatives
  in the order of the pattern: an optional group prefers to match, \<^verbatim>\<open>\s*\<close> takes the
  longest run first and gives back one character at a time, \<^verbatim>\<open>[\s\S]*?\<close> takes the
  shortest text up to the closing delimiter. The result is group 1 of the first match.
\<close>

fun first_some :: "('a \<Rightarrow> 'b option) \<Rightarrow> 'a list \<Rightarrow> 'b option" where
  "first_some f [] = None"
| "first_some f (x # xs) = (case f x of Some y \<Rightarrow> Some y | None \<Rightarrow> first_some f xs)"

definition lazy_until :: "ustr \<Rightarrow> ustr \<Rightarrow> ustr option" where
  "lazy_until closing r = map_option (\<lambda>j. take j r) (find_sub closing r)"

definition backticks :: ustr where
  "backticks = [96, 96, 96]"

definition quotes :: ustr where
  "quotes = [39, 39, 39]"

definition after_spaces :: "ustr \<Rightarrow> ustr option" where
  "after_spaces r =
     first_some (\<lambda>k. lazy_until backticks (drop k r))
       (rev [0 ..< Suc (length (takeWhile is_space r))])"

definition fence_languages :: "ustr list" where
  "fence_languages = [asc ''nginx'', asc ''apache'', asc ''conf'', asc ''config'', []]"

definition match_backtick_block :: "ustr \<Rightarrow> ustr option" where
  "match_backtick_block r =
     (if startswith r backticks then
        first_some
          (\<lambda>lang. if startswith (drop 3 r) lang
                   then after_spaces (drop (length lang) (drop 3 r)) else None)
          fence_languages
      else None)"

definition match_quote_block :: "ustr \<Rightarrow> ustr option" where
  "match_quote_block r =
     (if startswith r quotes then lazy_until quotes (drop 3 r) else None)"

fun re_search :: "(ustr \<Rightarrow> ustr option) \<Rightarrow> ustr \<Rightarrow> ustr option" where
  "re_search m [] = m []"
| "re_search m (x # xs) =
     (case m (x # xs) of Some g \<Rightarrow> Some g | None \<Rightarrow> re_search m xs)"

subsection \<open>\<^verbatim>\<open>_get_fallback_response\<close>\<close>

text \<open>
  What the provider is built on and the model does not spell out: \<^verbatim>\<open>str.lower\<close>; the
  external auditor \<^verbatim>\<open>config_analyzer.analyze_config_file\<close>, called with the extracted
  text and the type hint; and the five string literals the \<^verbatim>\<open>_generate_*_response\<close>
  methods return.
\<close>

record fallback_env =
  lower :: "ustr \<Rightarrow> ustr"
  analyze_config_file :: "ustr \<Rightarrow> string option \<Rightarrow> ustr"
  unix_response :: ustr
  tor_response :: ustr
  network_response :: ustr
  kubernetes_response :: ustr
  general_response :: ustr

text \<open>The Cyrillic keywords, by their code points: ``check'', ``analyse'', ``config'',
  ``configuration'', and the two stems of ``onion''.\<close>

definition kw_prover :: ustr where
  "kw_prover = [1087, 1088, 1086, 1074, 1077, 1088, 1100]"

definition kw_proanaliziruy :: ustr where
  "kw_proanaliziruy =
     [1087, 1088, 1086, 1072, 1085, 1072, 1083, 1080, 1079, 1080, 1088, 1091, 1081]"

definition kw_konfig :: ustr where
  "kw_konfig = [1082, 1086, 1085, 1092, 1080, 1075]"

definition kw_konfiguraciyu :: ustr where
  "kw_konfiguraciyu = [1082, 1086, 1085, 1092, 1080, 1075, 1091, 1088, 1072, 1094, 1080, 1102]"

definition kw_lukovi :: ustr where
  "kw_lukovi = [1083, 1091, 1082, 1086, 1074, 1080]"

definition kw_lukovichny :: ustr where
  "kw_lukovichny = [1083, 1091, 1082, 1086, 1074, 1080, 1095, 1085, 1099, 1081]"

definition wants_config_analysis :: "ustr \<Rightarrow> bool" where
  "wants_config_analysis prompt_lower =
     ((contains kw_prover prompt_lower \<or> contains kw_proanaliziruy prompt_lower) \<and>
      (contains kw_konfig prompt_lower \<or> contains kw_konfiguraciyu prompt_lower))"

definition config_type_of :: "ustr \<Rightarrow> string option" where
  "config_type_of prompt_lower =
     (if contains (asc ''nginx'') prompt_lower then Some ''nginx''
      else if contains (asc ''apache'') prompt_lower then Some ''apache''
      else None)"

definition config_match :: "ustr \<Rightarrow> ustr option" where
  "config_match prompt =
     (case re_search match_backtick_block prompt of
        Some g \<Rightarrow> Some g
      | None \<Rightarrow> re_search match_quote_block prompt)"

definition generate_network_response :: "fallback_env \<Rightarrow> ustr \<Rightarrow> ustr" where
  "generate_network_response env prompt =
     (if contains (asc ''tor'') (lower env prompt) \<or> contains kw_lukovichny (lower env prompt)
      then tor_response env else network_response env)"

definition topic_response :: "fallback_env \<Rightarrow> ustr \<Rightarrow> ustr" where
  "topic_response env prompt =
     (let prompt_lower = lower env prompt
      in if contains (asc ''unix'') prompt_lower \<or> contains (asc ''linux'') prompt_lower
           then unix_response env
         else if contains (asc ''vpn'') prompt_lower \<or> contains (asc ''tor'') prompt_lower \<or>
                 contains kw_lukovi prompt_lower
           then generate_network_response env prompt
         else if contains (asc ''kubernetes'') prompt_lower \<or> contains (asc ''k8s'') prompt_lower
           then kubernetes_response env
         else general_response env)"

definition get_fallback_response :: "fallback_env \<Rightarrow> ustr \<Rightarrow> ustr" where
  "get_fallback_response env prompt =
     (let prompt_lower = lower env prompt
      in if wants_config_analysis prompt_lower then
           (case config_match prompt of
              Some g \<Rightarrow> analyze_config_file env (strip g) (config_type_of prompt_lower)
            | None \<Rightarrow> topic_response env prompt)
         else topic_response env prompt)"

subsection \<open>The provider\<close>

definition fallback_catalogue :: "model_info list" where
  "fallback_catalogue =
     [\<lparr>name = asc ''fallback-unix'', description = [
          1052, 1086, 1076, 1077, 1083, 1100, 32, 1076, 1083, 1103, 32, 1086, 1090, 1074,
          1077, 1090, 1086, 1074, 32, 1085, 1072, 32, 1074, 1086, 1087, 1088, 1086, 1089,
          1099, 32, 1086, 32, 85, 78, 73, 88, 45, 1089, 1080, 1089, 1090, 1077, 1084, 1072,
          1093]\<rparr>,
      \<lparr>name = asc ''fallback-network'', description = [
          1052, 1086, 1076, 1077, 1083, 1100, 32, 1076, 1083, 1103, 32, 1086, 1090, 1074,
          1077, 1090, 1086, 1074, 32, 1085, 1072, 32, 1074, 1086, 1087, 1088, 1086, 1089,
          1099, 32, 1086, 32, 1089, 1077, 1090, 1103, 1093, 32, 1080, 32, 86, 80, 78]\<rparr>,
      \<lparr>name = asc ''fallback-kubernetes'', description = [
          1052, 1086, 1076, 1077, 1083, 1100, 32, 1076, 1083, 1103, 32, 1086, 1090, 1074,
          1077, 1090, 1086, 1074, 32, 1085, 1072, 32, 1074, 1086, 1087, 1088, 1086, 1089,
          1099, 32, 1086, 32, 75, 117, 98, 101, 114, 110, 101, 116, 101, 115]\<rparr>,
      \<lparr>name = asc ''fallback-analyzer'', description = [
          1052, 1086, 1076, 1077, 1083, 1100, 32, 1076, 1083, 1103, 32, 1072, 1085, 1072,
          1083, 1080, 1079, 1072, 32, 1082, 1086, 1085, 1092, 1080, 1075, 1091, 1088, 1072,
          1094, 1080, 1086, 1085, 1085, 1099, 1093, 32, 1092, 1072, 1081, 1083, 1086, 1074]\<rparr>]"

text \<open>
  \<^verbatim>\<open>FallbackProvider.generate_completion\<close> has no \<^verbatim>\<open>yield\<close> of its own: it returns
  the text, or the generator object of \<^verbatim>\<open>_stream_fallback\<close>.
\<close>

definition FallbackProvider_generate_completion ::
    "fallback_env \<Rightarrow> ustr \<Rightarrow> ustr \<Rightarrow> bool \<Rightarrow> pyval" where
  "FallbackProvider_generate_completion env model prompt stream =
     (let response = get_fallback_response env prompt
      in if stream then stream_fallback response else PStr response)"

definition FallbackProvider :: "fallback_env \<Rightarrow> provider" where
  "FallbackProvider env =
     \<lparr>check_connection = True,
      list_models = fallback_catalogue,
      generate_completion = FallbackProvider_generate_completion env\<rparr>"

section \<open>The providers that call a backend\<close>

subsection \<open>The library and the network\<close>

text \<open>
  \<^verbatim>\<open>json.loads\<close> and \<^verbatim>\<open>bytes.decode('utf-8')\<close> are parameters: each returns its value
  or the exception it raises. A line of \<^verbatim>\<open>iter_lines\<close> is a list of bytes.
\<close>

record pylib =
  json_loads :: "ustr \<Rightarrow> exn + json"
  decode_utf8 :: "ustr \<Rightarrow> exn + ustr"

text \<open>
  What \<^verbatim>\<open>requests.post\<close> gives: an exception, or a response with its status, what
  \<^verbatim>\<open>response.json()\<close> returns or raises, the lines \<^verbatim>\<open>response.iter_lines()\<close>
  delivers, and the exception that ends the lines when the connection breaks. The backend
  of a provider answers the request for a model, a prompt and the \<^verbatim>\<open>stream\<close> flag.
\<close>

record response =
  status_code :: nat
  json_body :: "exn + json"
  iter_lines :: "ustr list"
  iter_error :: "exn option"

datatype http = Failed exn | Responded response

type_synonym backend = "ustr \<Rightarrow> ustr \<Rightarrow> bool \<Rightarrow> http"

subsection \<open>The loop over the lines of a streamed body\<close>

text \<open>
  One pass of the body of \<^verbatim>\<open>for line in response.iter_lines(): if line: ...\<close> delivers
  some events and then goes on to the next line, leaves the loop by \<^verbatim>\<open>break\<close>, or lets
  an exception escape the loop.
\<close>

datatype loop_end = Continue | Break | Raise exn

fun lines_loop :: "(ustr \<Rightarrow> event list \<times> loop_end) \<Rightarrow> ustr list \<Rightarrow> event list \<times> loop_end" where
  "lines_loop body [] = ([], Continue)"
| "lines_loop body (line # rest) =
     (if line = [] then lines_loop body rest
      else (case body line of
              (evs, Continue) \<Rightarrow> (case lines_loop body rest of (evs', e) \<Rightarrow> (evs @ evs', e))
            | (evs, e) \<Rightarrow> (evs, e)))"

text \<open>
  The streaming branch after the status check, inside the outer \<^verbatim>\<open>try\<close>: the loop, then
  the outer handler \<^verbatim>\<open>yield json.dumps({"error": str(e)})\<close> for an exception that escaped
  the loop or that \<^verbatim>\<open>iter_lines\<close> raised when asked for the next line.
\<close>

definition stream_lines :: "(ustr \<Rightarrow> event list \<times> loop_end) \<Rightarrow> response \<Rightarrow> event list" where
  "stream_lines body r =
     (case lines_loop body (iter_lines r) of
        (evs, Break) \<Rightarrow> evs
      | (evs, Raise e) \<Rightarrow> evs @ [error_event (str_exn e)]
      | (evs, Continue) \<Rightarrow>
          (case iter_error r of
             None \<Rightarrow> evs
           | Some e \<Rightarrow> evs @ [error_event (str_exn e)]))"

definition done_event :: "ustr \<Rightarrow> event" where
  "done_event model = JObj [(''done'', JBool True), (''response'', JStr []), (''model'', JStr model)]"

definition delta_event :: "ustr \<Rightarrow> ustr \<Rightarrow> event" where
  "delta_event model content_chunk =
     JObj [(''response'', JStr content_chunk), (''done'', JBool False), (''model'', JStr model)]"

definition parse_error_event :: "exn \<Rightarrow> event" where
  "parse_error_event e = error_event (asc ''Error parsing stream: '' @ str_exn e)"

text \<open>
  The inner \<^verbatim>\<open>try ... except Exception\<close> of the cloud providers: an exception in the
  pass delivers one error event, and the loop goes on.
\<close>

definition guarded :: "exn + event list \<times> loop_end \<Rightarrow> event list \<times> loop_end" where
  "guarded x = (case x of Inl e \<Rightarrow> ([parse_error_event e], Continue) | Inr r \<Rightarrow> r)"

definition falsy_text :: "ustr option \<Rightarrow> bool" where
  "falsy_text k = (case k of None \<Rightarrow> True | Some s \<Rightarrow> s = [])"

subsection \<open>The branches the providers share\<close>

text \<open>
  Every \<^verbatim>\<open>generate_completion\<close> of a provider that calls a backend holds \<^verbatim>\<open>yield\<close>
  statements in its streaming branch, so it is a generator function as a whole: also with
  \<^verbatim>\<open>stream=False\<close> the call returns a generator object, and the \<^verbatim>\<open>return\<close>
  statements of the non-streaming branch end that generator without an item.
\<close>

text \<open>\<^verbatim>\<open>if not self.api_key: ...\<close>\<close>

definition no_credential :: "ustr \<Rightarrow> bool \<Rightarrow> pyval" where
  "no_credential error_msg stream =
     (if stream then PGen [error_event error_msg] (Inr PNone)
      else PGen [] (Inr (PStr error_msg)))"

text \<open>
  The non-streaming branch: the POST, the status check, the extraction of the answer from
  \<^verbatim>\<open>response.json()\<close> (the parameter), and the outer handler
  \<^verbatim>\<open>return f"Error: {str(e)}"\<close>.
\<close>

definition error_return :: "exn \<Rightarrow> pyval" where
  "error_return e = PGen [] (Inr (PStr (asc ''Error: '' @ str_exn e)))"

definition nonstream_result :: "http \<Rightarrow> (json \<Rightarrow> exn + json) \<Rightarrow> pyval" where
  "nonstream_result h extract =
     (case h of
        Failed e \<Rightarrow> error_return e
      | Responded r \<Rightarrow>
          if status_code r = 200 then
            (case bind (json_body r) extract of
               Inl e \<Rightarrow> error_return e
             | Inr v \<Rightarrow> PGen [] (Inr (of_json v)))
          else PGen [] (Inr (PStr [])))"

text \<open>
  The streaming branch: the POST, the status check with its error event, the events of
  the body (the parameter), and the outer handler for an exception of the POST.
\<close>

definition stream_result :: "http \<Rightarrow> (response \<Rightarrow> ustr) \<Rightarrow> (response \<Rightarrow> event list) \<Rightarrow> pyval" where
  "stream_result h failure run =
     (case h of
        Failed e \<Rightarrow> PGen [error_event (str_exn e)] (Inr PNone)
      | Responded r \<Rightarrow>
          if status_code r \<noteq> 200 then PGen [error_event (failure r)] (Inr PNone)
          else PGen (run r) (Inr PNone))"

definition done_marker :: ustr where
  "done_marker = asc ''[DONE]''"

definition skip :: "exn + event list \<times> loop_end" where
  "skip = Inr ([], Continue)"

subsection \<open>OllamaProvider\<close>

text \<open>
  The first statement of the method, the choice of a system prompt by
  \<^verbatim>\<open>devops_prompt.get_specialized_prompt\<close>, returns for every prompt and only feeds the
  request; the only exception handler of the loop body is for \<^verbatim>\<open>json.JSONDecodeError\<close>,
  so any other exception of a pass escapes the loop.
\<close>

fun is_json_decode_error :: "exn \<Rightarrow> bool" where
  "is_json_decode_error (JSONDecodeError m) = True"
| "is_json_decode_error e = False"

definition ollama_line :: "pylib \<Rightarrow> ustr \<Rightarrow> event list \<times> loop_end" where
  "ollama_line lib line =
     (case json_loads lib line of
        Inl e \<Rightarrow>
          if is_json_decode_error e
          then ([error_event (asc ''Invalid JSON in response'')], Continue)
          else ([], Raise e)
      | Inr chunk \<Rightarrow>
          (case dict_get chunk ''done'' (JBool False) of
             Inl e \<Rightarrow> ([chunk], Raise e)
           | Inr d \<Rightarrow> ([chunk], if truthy d then Break else Continue)))"

definition OllamaProvider_generate_completion ::
    "pylib \<Rightarrow> backend \<Rightarrow> ustr \<Rightarrow> ustr \<Rightarrow> bool \<Rightarrow> pyval" where
  "OllamaProvider_generate_completion lib post model prompt stream =
     (if \<not> stream then
        nonstream_result (post model prompt stream) (\<lambda>j. dict_get j ''response'' (JStr []))
      else
        stream_result (post model prompt stream)
          (\<lambda>r. asc ''Failed to connect to Ollama API'')
          (stream_lines (ollama_line lib)))"

subsection \<open>OpenAIProvider\<close>

definition openai_line :: "pylib \<Rightarrow> ustr \<Rightarrow> ustr \<Rightarrow> event list \<times> loop_end" where
  "openai_line lib model line =
     guarded
       (bind (decode_utf8 lib line) (\<lambda>line.
          if startswith line (asc ''data: '') then
            (let line = drop 6 line
             in if line = done_marker then Inr ([done_event model], Break)
                else
                  bind (json_loads lib line) (\<lambda>data.
                  bind (getitem data ''choices'') (\<lambda>choices.
                  bind (getitem0 choices) (\<lambda>choice.
                  bind (getitem choice ''delta'') (\<lambda>delta.
                  bind (has_key ''content'' delta) (\<lambda>present.
                    if present then
                      bind (getitem delta ''content'') (\<lambda>c.
                      bind (as_text c) (\<lambda>content_chunk.
                        Inr ([delta_event model content_chunk], Continue)))
                    else skip))))))
          else skip))"

definition openai_message :: "json \<Rightarrow> exn + json" where
  "openai_message j =
     bind (getitem j ''choices'') (\<lambda>choices.
     bind (getitem0 choices) (\<lambda>choice.
     bind (getitem choice ''message'') (\<lambda>message.
       getitem message ''content'')))"

definition OpenAIProvider_generate_completion ::
    "pylib \<Rightarrow> ustr option \<Rightarrow> backend \<Rightarrow> ustr \<Rightarrow> ustr \<Rightarrow> bool \<Rightarrow> pyval" where
  "OpenAIProvider_generate_completion lib api_key post model prompt stream =
     (if falsy_text api_key then
        no_credential (asc ''OpenAI API key not provided. Cannot generate completion.'') stream
      else if \<not> stream then nonstream_result (post model prompt stream) openai_message
      else
        stream_result (post model prompt stream)
          (\<lambda>r. asc ''Failed to connect to OpenAI API'')
          (stream_lines (openai_line lib model)))"

subsection \<open>AnthropicProvider\<close>

definition anthropic_content :: "ustr \<Rightarrow> json \<Rightarrow> exn + event list" where
  "anthropic_content model data_json =
     bind (has_key ''content'' data_json) (\<lambda>present.
       if present then
         bind (getitem data_json ''content'') (\<lambda>content.
         bind (json_len content) (\<lambda>n.
           if 0 < n then
             bind (getitem0 content) (\<lambda>block.
             bind (getitem block ''text'') (\<lambda>t.
             bind (as_text t) (\<lambda>content_chunk.
               Inr [delta_event model content_chunk])))
           else Inr []))
       else Inr [])"

definition anthropic_line :: "pylib \<Rightarrow> ustr \<Rightarrow> ustr \<Rightarrow> event list \<times> loop_end" where
  "anthropic_line lib model line =
     guarded
       (bind (decode_utf8 lib line) (\<lambda>line_text.
          if startswith line_text (asc ''data:'') then
            (let data_str = strip (drop 5 line_text)
             in if data_str = done_marker then Inr ([done_event model], Break)
                else
                  bind (json_loads lib data_str) (\<lambda>data_json.
                  bind (anthropic_content model data_json) (\<lambda>evs.
                    case dict_get data_json ''type'' JNull of
                      Inl e \<Rightarrow> Inr (evs @ [parse_error_event e], Continue)
                    | Inr t \<Rightarrow>
                        if t = JStr (asc ''message_stop'')
                        then Inr (evs @ [done_event model], Break)
                        else Inr (evs, Continue))))
          else skip))"

definition anthropic_message :: "json \<Rightarrow> exn + json" where
  "anthropic_message j =
     bind (getitem j ''content'') (\<lambda>content.
     bind (getitem0 content) (\<lambda>block.
       getitem block ''text''))"

definition AnthropicProvider_generate_completion ::
    "pylib \<Rightarrow> ustr option \<Rightarrow> backend \<Rightarrow> ustr \<Rightarrow> ustr \<Rightarrow> bool \<Rightarrow> pyval" where
  "AnthropicProvider_generate_completion lib api_key post model prompt stream =
     (if falsy_text api_key then
        no_credential (asc ''Anthropic API key not provided. Cannot generate completion.'') stream
      else if \<not> stream then nonstream_result (post model prompt stream) anthropic_message
      else
        stream_result (post model prompt stream)
          (\<lambda>r. asc ''Failed to connect to Anthropic API'')
          (stream_lines (anthropic_line lib model)))"

subsection \<open>GeminiProvider\<close>

definition gemini_part :: "json \<Rightarrow> exn + json" where
  "gemini_part candidate =
     bind (getitem candidate ''content'') (\<lambda>content.
     bind (getitem content ''parts'') (\<lambda>parts.
     bind (getitem0 parts) (\<lambda>part.
       getitem part ''text'')))"

definition gemini_line :: "pylib \<Rightarrow> ustr \<Rightarrow> ustr \<Rightarrow> event list \<times> loop_end" where
  "gemini_line lib model chunk =
     guarded
       (bind (decode_utf8 lib chunk) (\<lambda>chunk_text.
          if startswith chunk_text (asc ''data: '') then
            (let data_str = drop 6 chunk_text
             in if data_str = done_marker then Inr ([done_event model], Break)
                else
                  bind (json_loads lib data_str) (\<lambda>data_json.
                  bind (has_key ''candidates'' data_json) (\<lambda>present.
                    if present then
                      bind (getitem data_json ''candidates'') (\<lambda>candidates.
                      bind (json_len candidates) (\<lambda>n.
                        if 0 < n then
                          bind (getitem0 candidates) (\<lambda>candidate.
                          bind (has_key ''content'' candidate) (\<lambda>has_content.
                            if has_content then
                              bind (getitem candidate ''content'') (\<lambda>content.
                              bind (has_key ''parts'' content) (\<lambda>has_parts.
                                if has_parts then
                                  bind (gemini_part candidate) (\<lambda>t.
                                  bind (as_text t) (\<lambda>content_part.
                                    Inr ([delta_event model content_part], Continue)))
                                else skip))
                            else skip))
                        else skip))
                    else skip)))
          else skip))"

definition gemini_message :: "json \<Rightarrow> exn + json" where
  "gemini_message response_json =
     bind (getitem response_json ''candidates'') (\<lambda>candidates.
     bind (getitem0 candidates) gemini_part)"

text \<open>The statement that rewrites \<^verbatim>\<open>model\<close> when it holds no slash leaves it as it is in
  both of its branches.\<close>

definition GeminiProvider_generate_completion ::
    "pylib \<Rightarrow> ustr option \<Rightarrow> backend \<Rightarrow> ustr \<Rightarrow> ustr \<Rightarrow> bool \<Rightarrow> pyval" where
  "GeminiProvider_generate_completion lib api_key post model prompt stream =
     (if falsy_text api_key then
        no_credential (asc ''Google Gemini API key not provided. Cannot generate completion.'')
          stream
      else if \<not> stream then nonstream_result (post model prompt stream) gemini_message
      else
        stream_result (post model prompt stream)
          (\<lambda>r. asc ''Failed to connect to Google Gemini API'')
          (stream_lines (gemini_line lib model)))"

subsection \<open>AzureOpenAIProvider\<close>

definition azure_line :: "pylib \<Rightarrow> ustr \<Rightarrow> ustr \<Rightarrow> event list \<times> loop_end" where
  "azure_line lib model line =
     guarded
       (bind (decode_utf8 lib line) (\<lambda>line_text.
          if startswith line_text (asc ''data:'') then
            (let line_text = strip (drop 5 line_text)
             in if line_text = done_marker then Inr ([done_event model], Break)
                else
                  bind (json_loads lib line_text) (\<lambda>data.
                  bind (has_key ''choices'' data) (\<lambda>present.
                    if present then
                      bind (getitem data ''choices'') (\<lambda>choices.
                      bind (json_len choices) (\<lambda>n.
                        if 0 < n then
                          bind (getitem0 choices) (\<lambda>choice.
                          bind (dict_get choice ''delta'' (JObj [])) (\<lambda>delta.
                          bind (has_key ''content'' delta) (\<lambda>has_content.
                            if has_content then
                              bind (getitem delta ''content'') (\<lambda>c.
                              bind (as_text c) (\<lambda>content_chunk.
                                Inr ([delta_event model content_chunk], Continue)))
                            else skip)))
                        else skip))
                    else skip)))
          else skip))"

definition AzureOpenAIProvider_generate_completion ::
    "pylib \<Rightarrow> ustr option \<Rightarrow> ustr option \<Rightarrow> backend \<Rightarrow> ustr \<Rightarrow> ustr \<Rightarrow> bool \<Rightarrow> pyval" where
  "AzureOpenAIProvider_generate_completion lib api_key endpoint post model prompt stream =
     (if falsy_text api_key \<or> falsy_text endpoint then
        no_credential (asc ''Azure OpenAI credentials not provided. Cannot generate completion.'')
          stream
      else if \<not> stream then nonstream_result (post model prompt stream) openai_message
      else
        stream_result (post model prompt stream)
          (\<lambda>r. asc ''Failed to connect to Azure OpenAI API'')
          (stream_lines (azure_line lib model)))"

subsection \<open>HuggingFaceProvider\<close>

definition huggingface_event :: "ustr \<Rightarrow> nat \<Rightarrow> nat \<Rightarrow> json \<Rightarrow> event" where
  "huggingface_event model n i chunk =
     JObj [(''response'', chunk), (''done'', JBool (int i = int n - 1)), (''model'', JStr model)]"

definition huggingface_events :: "ustr \<Rightarrow> json list \<Rightarrow> event list" where
  "huggingface_events model chunks =
     map (\<lambda>(i, chunk). huggingface_event model (length chunks) i chunk) (enumerate 0 chunks)"

text \<open>
  The re-chunking of \<^verbatim>\<open>full_response\<close>, whatever the body held under
  \<^verbatim>\<open>generated_text\<close>: a string and a list are sliced; an empty dict has length 0 and
  gives no chunk; slicing a non-empty dict and \<^verbatim>\<open>len\<close> of anything else raise before
  the first \<^verbatim>\<open>yield\<close>.
\<close>

fun huggingface_chunks :: "ustr \<Rightarrow> json \<Rightarrow> exn + event list" where
  "huggingface_chunks model (JStr s) = Inr (huggingface_events model (map JStr (chunks_of s)))"
| "huggingface_chunks model (JArr xs) = Inr (huggingface_events model (map JArr (chunks_of xs)))"
| "huggingface_chunks model (JObj kvs) =
     (if kvs = [] then Inr [] else Inl (TypeError (asc ''unhashable type: slice'')))"
| "huggingface_chunks model v = Inl (TypeError (asc ''object has no len()''))"

definition huggingface_text :: "json \<Rightarrow> exn + json" where
  "huggingface_text response_json =
     bind (getitem0 response_json) (\<lambda>first. dict_get first ''generated_text'' (JStr []))"

definition huggingface_stream :: "ustr \<Rightarrow> response \<Rightarrow> event list" where
  "huggingface_stream model r =
     (case bind (bind (json_body r) huggingface_text) (huggingface_chunks model) of
        Inl e \<Rightarrow> [error_event (asc ''Error parsing response: '' @ str_exn e)]
      | Inr evs \<Rightarrow> evs)"

definition HuggingFaceProvider_generate_completion ::
    "ustr option \<Rightarrow> backend \<Rightarrow> ustr \<Rightarrow> ustr \<Rightarrow> bool \<Rightarrow> pyval" where
  "HuggingFaceProvider_generate_completion api_key post model prompt stream =
     (if falsy_text api_key then
        no_credential (asc ''Hugging Face API key not provided. Cannot generate completion.'')
          stream
      else if stream then
        stream_result (post model prompt stream)
          (\<lambda>r. asc ''Failed to connect to Hugging Face API: '' @ show_nat (status_code r))
          (huggingface_stream model)
      else nonstream_result (post model prompt stream) huggingface_text)"

subsection \<open>Every provider\<close>

text \<open>A provider instance of one of the seven classes, with what it was built from.\<close>

datatype provider_instance =
    Ollama backend
  | OpenAI "ustr option" backend
  | Anthropic "ustr option" backend
  | Gemini "ustr option" backend
  | AzureOpenAI "ustr option" "ustr option" backend
  | HuggingFace "ustr option" backend
  | Fallback fallback_env

fun provider_generate_completion ::
    "pylib \<Rightarrow> provider_instance \<Rightarrow> ustr \<Rightarrow> ustr \<Rightarrow> bool \<Rightarrow> pyval" where
  "provider_generate_completion lib (Ollama post) =
     OllamaProvider_generate_completion lib post"
| "provider_generate_completion lib (OpenAI api_key post) =
     OpenAIProvider_generate_completion lib api_key post"
| "provider_generate_completion lib (Anthropic api_key post) =
     AnthropicProvider_generate_completion lib api_key post"
| "provider_generate_completion lib (Gemini api_key post) =
     GeminiProvider_generate_completion lib api_key post"
| "provider_generate_completion lib (AzureOpenAI api_key endpoint post) =
     AzureOpenAIProvider_generate_completion lib api_key endpoint post"
| "provider_generate_completion lib (HuggingFace api_key post) =
     HuggingFaceProvider_generate_completion api_key post"
| "provider_generate_completion lib (Fallback env) =
     FallbackProvider_generate_completion env"

text \<open>The sequence of events a streaming request produces.\<close>

definition provider_stream :: "pylib \<Rightarrow> provider_instance \<Rightarrow> ustr \<Rightarrow> ustr \<Rightarrow> event list" where
  "provider_stream lib p model prompt = delivered (provider_generate_completion lib p model prompt True)"


section \<open>A small deployment, for the examples\<close>

text \<open>
  Lower-casing of the basic Latin and the Cyrillic capitals, which is what \<^verbatim>\<open>str.lower\<close>
  does on the prompts of the examples.
\<close>

definition example_lower :: "ustr \<Rightarrow> ustr" where
  "example_lower s =
     map (\<lambda>c. if 65 \<le> c \<and> c \<le> 90 then c + 32
              else if 1040 \<le> c \<and> c \<le> 1071 then c + 32
              else if 1024 \<le> c \<and> c \<le> 1039 then c + 80
              else c) s"

text \<open>The Russian prompt ``check the config'' (the words \<^verbatim>\<open>prover\<close> and \<^verbatim>\<open>konfig\<close> of
  the source, in Cyrillic): it holds no fenced block.\<close>

definition unfenced_prompt :: ustr where
  "unfenced_prompt = [1087, 1088, 1086, 1074, 1077, 1088, 1100, 32, 1082, 1086, 1085, 1092, 1080, 1075]"

text \<open>
  The text \<^verbatim>\<open>{"choices":[{"delta":{"content":"hi"}}]}\<close> of one chunk of a chat
  completion, by its code points, and its value. The library of the examples parses this
  text and rejects any other; its \<^verbatim>\<open>decode\<close> is the identity (the lines are ASCII).
\<close>

definition hi_text :: ustr where
  "hi_text = [
     123, 34, 99, 104, 111, 105, 99, 101, 115, 34, 58, 91, 123, 34, 100, 101, 108, 116, 97,
     34, 58, 123, 34, 99, 111, 110, 116, 101, 110, 116, 34, 58, 34, 104, 105, 34, 125, 125,
     93, 125]"

definition hi_chunk :: json where
  "hi_chunk = JObj [(''choices'', JArr [JObj [(''delta'', JObj [(''content'', JStr (asc ''hi''))])]])]"

definition example_lib :: pylib where
  "example_lib =
     \<lparr>json_loads = (\<lambda>s. if s = hi_text then Inr hi_chunk
                         else Inl (JSONDecodeError (asc ''Expecting value''))),
      decode_utf8 = Inr\<rparr>"

text \<open>A backend that refuses the connection, and one that answers a streaming request
  with one content line and then closes the body, without the \<^verbatim>\<open>[DONE]\<close> line.\<close>

definition refused :: backend where
  "refused model prompt stream = Failed (RequestException (asc ''Connection refused''))"

definition truncated :: backend where
  "truncated model prompt stream =
     Responded \<lparr>status_code = 200, json_body = Inr hi_chunk,
                iter_lines = [asc ''data: '' @ hi_text], iter_error = None\<rparr>"


text \<open>
  Three registered providers as the gateway sees them: a local server that is down, a
  local server that is up with no model pulled, and a cloud provider that is up with one
  model.
\<close>

definition ollama_down :: "pylib \<Rightarrow> provider" where
  "ollama_down lib =
     \<lparr>check_connection = False, list_models = [],
      generate_completion = OllamaProvider_generate_completion lib refused\<rparr>"

definition ollama_empty :: "pylib \<Rightarrow> provider" where
  "ollama_empty lib =
     \<lparr>check_connection = True, list_models = [],
      generate_completion = OllamaProvider_generate_completion lib truncated\<rparr>"

definition gemini_empty :: "pylib \<Rightarrow> provider" where
  "gemini_empty lib =
     \<lparr>check_connection = True, list_models = [],
      generate_completion = GeminiProvider_generate_completion lib (Some (asc ''key'')) truncated\<rparr>"

definition openai_up :: "pylib \<Rightarrow> provider" where
  "openai_up lib =
     \<lparr>check_connection = True,
      list_models = [\<lparr>name = asc ''gpt-4'', description = []\<rparr>],
      generate_completion = OpenAIProvider_generate_completion lib (Some (asc ''key'')) truncated\<rparr>"

text \<open>The default deployment with the local server down: only \<^verbatim>\<open>ollama\<close> and
  \<^verbatim>\<open>fallback\<close> are registered.\<close>

definition down_service :: "bool \<Rightarrow> pylib \<Rightarrow> fallback_env \<Rightarrow> ai_service" where
  "down_service fb lib env =
     \<lparr>use_fallback = fb, default_provider = ''ollama'',
      providers = [(''ollama'', ollama_down lib), (''fallback'', FallbackProvider env)]\<rparr>"

text \<open>A deployment with \<^verbatim>\<open>OLLAMA_USE_FALLBACK\<close> off, the local server up without a
  model, and two cloud providers.\<close>

definition empty_service :: "pylib \<Rightarrow> fallback_env \<Rightarrow> ai_service" where
  "empty_service lib env =
     \<lparr>use_fallback = False, default_provider = ''ollama'',
      providers = [(''ollama'', ollama_empty lib), (''openai'', openai_up lib),
                   (''gemini'', gemini_empty lib), (''fallback'', FallbackProvider env)]\<rparr>"

definition example_env :: fallback_env where
  "example_env =
     \<lparr>lower = example_lower,
      analyze_config_file = (\<lambda>text hint. asc ''report''),
      unix_response = asc ''unix'',
      tor_response = asc ''tor'',
      network_response = asc ''network'',
      kubernetes_response = asc ''kubernetes'',
      general_response = asc ''menu''\<rparr>"

section \<open>The streaming contract\<close>

text \<open>No event of the sequence but the last one has \<^verbatim>\<open>done\<close> true.\<close>

definition quiet :: "event list \<Rightarrow> bool" where
  "quiet evs = list_all (\<lambda>ev. \<not> is_done ev) evs"

definition done_only_last :: "event list \<Rightarrow> bool" where
  "done_only_last evs = quiet (butlast evs)"

text \<open>One pass of a loop body keeps the contract: an event with \<^verbatim>\<open>done\<close> true is the
  last of the pass and leaves the loop.\<close>

fun pass_ok :: "event list \<times> loop_end \<Rightarrow> bool" where
  "pass_ok (evs, Break) = done_only_last evs"
| "pass_ok (evs, e) = quiet evs"

fun pass_ok_or_raised :: "exn + event list \<times> loop_end \<Rightarrow> bool" where
  "pass_ok_or_raised (Inl e) = True"
| "pass_ok_or_raised (Inr r) = pass_ok r"






text \<open>The sequence is not empty and its last event has \<^verbatim>\<open>done\<close> true or is an error
  event.\<close>

definition closed_seq :: "event list \<Rightarrow> bool" where
  "closed_seq evs = (evs \<noteq> [] \<and> (is_done (last evs) \<or> is_error (last evs)))"

text \<open>A pass of the loop of a cloud provider: no exception escapes it (the inner handler
  takes every one), and when it leaves the loop by \<^verbatim>\<open>break\<close> it has just delivered an
  event with \<^verbatim>\<open>done\<close> true.\<close>

fun break_done :: "event list \<times> loop_end \<Rightarrow> bool" where
  "break_done (evs, Break) = (evs \<noteq> [] \<and> is_done (last evs))"
| "break_done (evs, Continue) = True"
| "break_done (evs, Raise e) = False"

fun break_done_or_raised :: "exn + event list \<times> loop_end \<Rightarrow> bool" where
  "break_done_or_raised (Inl e) = True"
| "break_done_or_raised (Inr r) = break_done r"

section \<open>Verification\<close>

subsection \<open>The streaming emulation of the fallback provider\<close>

lemma concat_chunks_take:
  "concat (map (\<lambda>i. slice i (i + n) xs) (map (\<lambda>k. k * n) [0 ..< m])) = take (m * n) xs"
proof (induction m)
  case 0
  then show ?case by simp
next
  case (Suc m)
  have "Suc m * n = m * n + n" by simp
  then have "take (Suc m * n) xs = take (m * n) xs @ take n (drop (m * n) xs)"
    by (simp only: take_add)
  with Suc show ?case by (simp add: slice_def)
qed

lemma range_covers: "0 < n \<Longrightarrow> (len::nat) \<le> ((len + n - 1) div n) * n"
proof -
  assume n: "0 < n"
  have "len + n - 1 = ((len + n - 1) div n) * n + (len + n - 1) mod n" by simp
  moreover have "(len + n - 1) mod n < n" using n by simp
  ultimately show ?thesis by linarith
qed

lemma range_tight: "0 < n \<Longrightarrow> 0 < (len::nat) \<Longrightarrow> ((len + n - 1) div n - 1) * n < len"
proof -
  assume n: "0 < n" and l: "0 < len"
  define q where "q = (len + n - 1) div n"
  have up: "q * n \<le> len + n - 1" unfolding q_def by simp
  have "n \<le> len + n - 1" using l by simp
  then have "1 \<le> q" unfolding q_def using n by (simp add: div_greater_zero_iff Suc_le_eq)
  then obtain q' where q': "q = Suc q'" by (cases q) auto
  from up q' have "q' * n + n \<le> len + n - 1" by simp
  then have "q' * n < len" using l by linarith
  then show ?thesis using q' unfolding q_def by simp
qed

lemma chunk_size_pos: "0 < chunk_size_of r"
  by (simp add: chunk_size_of_def)

lemma concat_chunks_of: "concat (chunks_of r) = r"
  using range_covers [OF chunk_size_pos, of "length r" r]
  by (simp add: chunks_of_def py_range_step_def Let_def concat_chunks_take del: map_map)

lemma length_chunks_of: "length (chunks_of r) = (length r + chunk_size_of r - 1) div chunk_size_of r"
  by (simp add: chunks_of_def py_range_step_def Let_def)

lemma nth_chunks_of:
  "i < length (chunks_of r) \<Longrightarrow> chunks_of r ! i = take (chunk_size_of r) (drop (i * chunk_size_of r) r)"
  by (simp add: chunks_of_def py_range_step_def Let_def slice_def)

lemma length_nth_chunk:
  assumes "i < length (chunks_of r)"
  shows "length (chunks_of r ! i) =
    (if i + 1 < length (chunks_of r) then chunk_size_of r else length r - i * chunk_size_of r)"
    and "0 < length (chunks_of r ! i)"
    and "length (chunks_of r ! i) \<le> chunk_size_of r"
proof -
  let ?n = "chunk_size_of r" and ?m = "length (chunks_of r)"
  have n: "0 < ?n" by (rule chunk_size_pos)
  have m: "?m = (length r + ?n - 1) div ?n" by (rule length_chunks_of)
  have lpos: "0 < length r" using assms m n
    by (cases "length r = 0") auto
  have tight: "(?m - 1) * ?n < length r" using range_tight [OF n lpos] m by simp
  have len: "length (chunks_of r ! i) = min ?n (length r - i * ?n)"
    using assms by (simp add: nth_chunks_of)
  have le: "i * ?n \<le> (?m - 1) * ?n" using assms by (intro mult_le_mono1) simp
  have lt: "i * ?n < length r" using le tight by (rule le_less_trans)
  show "0 < length (chunks_of r ! i)" using len lt n by simp
  show "length (chunks_of r ! i) \<le> ?n" using len by simp
  show "length (chunks_of r ! i) =
    (if i + 1 < ?m then ?n else length r - i * ?n)"
  proof (cases "i + 1 < ?m")
    case True
    then have "(i + 1) * ?n \<le> (?m - 1) * ?n" by (intro mult_le_mono1) simp
    then have "i * ?n + ?n < length r" using tight by simp
    then show ?thesis using True len by simp
  next
    case False
    then have i: "Suc i = ?m" using assms by simp
    have "length r \<le> Suc i * ?n" using range_covers [OF n, of "length r"] m i by simp
    then have "length r - i * ?n \<le> ?n" by simp
    then show ?thesis using False len by simp
  qed
qed


lemma length_stream_fallback_events:
  "length (stream_fallback_events r) = length (chunks_of r)"
  by (simp add: stream_fallback_events_def Let_def)

lemma nth_stream_fallback_events:
  "i < length (chunks_of r) \<Longrightarrow>
   stream_fallback_events r ! i = fallback_event (length (chunks_of r)) i (chunks_of r ! i)"
  by (simp add: stream_fallback_events_def Let_def nth_enumerate_eq)

lemma fallback_event_fields:
  "field ''response'' (fallback_event n i c) = Some (JStr c)"
  "i < n \<Longrightarrow> is_done (fallback_event n i c) = (i + 1 = n)"
  by (auto simp: fallback_event_def is_done_def)

text \<open>
  C5, as the code has it. For every response text, \<^verbatim>\<open>_stream_fallback\<close> cuts it into
  consecutive chunks whose size is the larger of 5 and the tenth of the length rounded
  down (not up): the chunks concatenate to the text, every chunk but the last has exactly
  that size, the last one holds the remaining characters (at least one, at most that
  size); one event is delivered per chunk, in order, carrying the chunk, and only the last
  event has \<^verbatim>\<open>done\<close> true.
\<close>

theorem stream_fallback_chunking:
  "concat (chunks_of r) = r \<and>
   delivered (stream_fallback r) = stream_fallback_events r \<and>
   length (stream_fallback_events r) = length (chunks_of r) \<and>
   (\<forall>i < length (chunks_of r).
      length (chunks_of r ! i) =
        (if i + 1 < length (chunks_of r) then max 5 (length r div 10)
         else length r - i * max 5 (length r div 10)) \<and>
      0 < length (chunks_of r ! i) \<and>
      length (chunks_of r ! i) \<le> max 5 (length r div 10) \<and>
      field ''response'' (stream_fallback_events r ! i) = Some (JStr (chunks_of r ! i)) \<and>
      is_done (stream_fallback_events r ! i) = (i + 1 = length (chunks_of r)))"
proof -
  have "\<forall>i < length (chunks_of r).
      length (chunks_of r ! i) =
        (if i + 1 < length (chunks_of r) then max 5 (length r div 10)
         else length r - i * max 5 (length r div 10)) \<and>
      0 < length (chunks_of r ! i) \<and>
      length (chunks_of r ! i) \<le> max 5 (length r div 10) \<and>
      field ''response'' (stream_fallback_events r ! i) = Some (JStr (chunks_of r ! i)) \<and>
      is_done (stream_fallback_events r ! i) = (i + 1 = length (chunks_of r))"
  proof (intro allI impI)
    fix i assume i: "i < length (chunks_of r)"
    note l = length_nth_chunk [OF i, unfolded chunk_size_of_def]
    show "length (chunks_of r ! i) =
        (if i + 1 < length (chunks_of r) then max 5 (length r div 10)
         else length r - i * max 5 (length r div 10)) \<and>
      0 < length (chunks_of r ! i) \<and>
      length (chunks_of r ! i) \<le> max 5 (length r div 10) \<and>
      field ''response'' (stream_fallback_events r ! i) = Some (JStr (chunks_of r ! i)) \<and>
      is_done (stream_fallback_events r ! i) = (i + 1 = length (chunks_of r))"
      using l i by (simp add: nth_stream_fallback_events fallback_event_fields)
  qed
  moreover have "concat (chunks_of r) = r" by (rule concat_chunks_of)
  moreover have "delivered (stream_fallback r) = stream_fallback_events r"
    by (simp add: stream_fallback_def)
  moreover have "length (stream_fallback_events r) = length (chunks_of r)"
    by (rule length_stream_fallback_events)
  ultimately show ?thesis by blast
qed

lemma chunks_hello: "chunks_of (asc ''hello world!'') = [asc ''hello'', asc '' worl'', asc ''d!'']"
  by (simp add: chunks_of_def chunk_size_of_def py_range_step_def slice_def asc_def upt_rec)

theorem stream_fallback_chunking_witness:
  "length (stream_fallback_events (asc ''hello world!'')) = 3 \<and>
   \<not> is_done (stream_fallback_events (asc ''hello world!'') ! 0) \<and>
   \<not> is_done (stream_fallback_events (asc ''hello world!'') ! 1) \<and>
   is_done (stream_fallback_events (asc ''hello world!'') ! 2) \<and>
   field ''response'' (stream_fallback_events (asc ''hello world!'') ! 2) = Some (JStr (asc ''d!''))"
  using stream_fallback_chunking [of "asc ''hello world!''"]
  by (simp add: chunks_hello)

text \<open>
  C5 as the specification words it fails: a text of 51 characters is cut into chunks of 5
  (eleven events), where the rounded-up tenth is 6.
\<close>

theorem stream_fallback_ceiling_counterexample:
  "length (replicate 51 (97::nat)) = 51 \<and>
   spec_chunk_size 51 = 6 \<and>
   map length (chunks_of (replicate 51 (97::nat))) = [5, 5, 5, 5, 5, 5, 5, 5, 5, 5, 1] \<and>
   length (stream_fallback_events (replicate 51 97)) = 11"
  by (simp add: spec_chunk_size_def chunks_of_def chunk_size_of_def py_range_step_def
      slice_def upt_rec stream_fallback_events_def Let_def)

subsection \<open>The canned answers of the fallback provider\<close>

lemma unfenced_falls_through:
  "config_match prompt = None \<Longrightarrow> get_fallback_response env prompt = topic_response env prompt"
  by (simp add: get_fallback_response_def Let_def)

lemma topic_response_is_canned:
  "topic_response env prompt \<in> {unix_response env, tor_response env, network_response env,
     kubernetes_response env, general_response env}"
  by (simp add: topic_response_def generate_network_response_def Let_def)

text \<open>
  C4. The prompt \<^verbatim>\<open>unfenced_prompt\<close> asks for an analysis, names a configuration and
  holds no fenced block; the fallback provider answers it with the general menu, not with
  an instruction to fence the configuration.
\<close>

theorem fallback_unfenced_gets_menu:
  "wants_config_analysis (example_lower unfenced_prompt) \<and>
   config_match unfenced_prompt = None \<and>
   get_fallback_response (env\<lparr>lower := example_lower\<rparr>) unfenced_prompt = general_response env"
  by (simp add: get_fallback_response_def wants_config_analysis_def config_match_def
      topic_response_def unfenced_prompt_def example_lower_def kw_prover_def kw_konfig_def
      kw_proanaliziruy_def kw_konfiguraciyu_def kw_lukovi_def startswith_def asc_def
      match_backtick_block_def match_quote_block_def backticks_def quotes_def)

subsection \<open>The gateway\<close>

text \<open>
  What the gateway does for an unreachable provider, for every registry: with the fallback
  enabled the catalogue is the fallback provider's and the generator ends with the fallback
  provider's result; with the fallback disabled a streaming request delivers exactly the
  unavailability event.
\<close>

lemma gateway_unreachable_with_fallback:
  assumes "map_of (providers svc) (resolve_provider svc provider) = Some ai_provider"
      and "\<not> check_connection ai_provider"
      and "use_fallback svc"
      and "map_of (providers svc) ''fallback'' = Some fb"
  shows "AIService_list_models svc provider = Inr (list_models fb) \<and>
         AIService_generate_completion svc model prompt provider stream
           = PGen [] (Inr (generate_completion fb model prompt stream))"
  using assms
  by (simp add: AIService_list_models_def AIService_generate_completion_def
      fallback_list_models_def Let_def)

lemma gateway_unreachable_without_fallback:
  assumes "map_of (providers svc) (resolve_provider svc provider) = Some ai_provider"
      and "\<not> check_connection ai_provider"
      and "\<not> use_fallback svc"
  shows "AIService_list_models svc provider = Inr [] \<and>
         delivered (AIService_generate_completion svc model prompt provider True)
           = [unavailable_event (resolve_provider svc provider)] \<and>
         AIService_generate_completion svc model prompt provider False
           = PGen [] (Inr (PStr (unavailable_message (resolve_provider svc provider))))"
  using assms
  by (simp add: AIService_list_models_def AIService_generate_completion_def Let_def)

text \<open>
  C6. With the fallback enabled and \<^verbatim>\<open>ollama\<close> unreachable, \<^verbatim>\<open>list_models\<close> returns
  the catalogue of the fallback provider, but \<^verbatim>\<open>generate_completion\<close> does not return
  what the fallback provider returns for the same request: the fallback provider returns
  the text, the gateway a generator object that delivers nothing and carries the text as
  the value of its \<^verbatim>\<open>return\<close>; for a streaming request the fallback provider delivers
  its chunk events, the gateway none.
\<close>

theorem gateway_fallback_generate_wrapped:
  "AIService_generate_completion (down_service True lib env) model prompt (Some ''ollama'') False
     = PGen [] (Inr (PStr (get_fallback_response env prompt))) \<and>
   FallbackProvider_generate_completion env model prompt False
     = PStr (get_fallback_response env prompt) \<and>
   \<not> is_str (AIService_generate_completion (down_service True lib env) model prompt
            (Some ''ollama'') False) \<and>
   delivered (AIService_generate_completion (down_service True lib env) model prompt
            (Some ''ollama'') True) = [] \<and>
   delivered (FallbackProvider_generate_completion env model prompt True)
     = stream_fallback_events (get_fallback_response env prompt) \<and>
   AIService_list_models (down_service True lib env) (Some ''ollama'') = Inr fallback_catalogue"
  by (simp add: AIService_generate_completion_def AIService_list_models_def
      fallback_list_models_def down_service_def ollama_down_def FallbackProvider_def
      FallbackProvider_generate_completion_def stream_fallback_def resolve_provider_def)

text \<open>
  C7. With the fallback disabled and \<^verbatim>\<open>ollama\<close> unreachable, a streaming request
  delivers the single unavailability event, but a request with \<^verbatim>\<open>stream=False\<close> does not
  produce the error string: it produces a generator object that delivers nothing and
  carries the string as the value of its \<^verbatim>\<open>return\<close>.
\<close>

theorem gateway_unavailable_not_a_string:
  "AIService_generate_completion (down_service False lib env) model prompt (Some ''ollama'') False
     = PGen [] (Inr (PStr (unavailable_message ''ollama''))) \<and>
   \<not> is_str (AIService_generate_completion (down_service False lib env) model prompt
            (Some ''ollama'') False) \<and>
   delivered (AIService_generate_completion (down_service False lib env) model prompt
            (Some ''ollama'') True) = [unavailable_event ''ollama'']"
  by (simp add: AIService_generate_completion_def down_service_def ollama_down_def
      resolve_provider_def)

lemma is_generator_nonstream [simp]: "is_generator (nonstream_result h extract)"
  by (simp add: nonstream_result_def error_return_def split: http.splits sum.splits)

lemma is_generator_no_credential [simp]: "is_generator (no_credential msg stream)"
  by (simp add: no_credential_def)

lemma ollama_generator: "is_generator (OllamaProvider_generate_completion lib post model prompt False)"
  by (simp add: OllamaProvider_generate_completion_def)

lemma openai_generator:
  "is_generator (OpenAIProvider_generate_completion lib api_key post model prompt False)"
  by (simp add: OpenAIProvider_generate_completion_def)

lemma anthropic_generator:
  "is_generator (AnthropicProvider_generate_completion lib api_key post model prompt False)"
  by (simp add: AnthropicProvider_generate_completion_def)

lemma gemini_generator:
  "is_generator (GeminiProvider_generate_completion lib api_key post model prompt False)"
  by (simp add: GeminiProvider_generate_completion_def)

lemma azure_generator:
  "is_generator (AzureOpenAIProvider_generate_completion lib api_key endpoint post model prompt False)"
  by (simp add: AzureOpenAIProvider_generate_completion_def)

lemma huggingface_generator:
  "is_generator (HuggingFaceProvider_generate_completion api_key post model prompt False)"
  by (simp add: HuggingFaceProvider_generate_completion_def)

lemma gateway_generator:
  "is_generator (AIService_generate_completion svc model prompt provider stream)"
  by (simp add: AIService_generate_completion_def Let_def split: option.splits)

text \<open>Only the fallback provider returns a string.\<close>

lemma fallback_returns_string:
  "is_str (FallbackProvider_generate_completion env model prompt False)"
  by (simp add: FallbackProvider_generate_completion_def)

lemma ollama_refused:
  "provider_generate_completion lib (Ollama refused) model prompt False
     = PGen [] (Inr (PStr (asc ''Error: Connection refused'')))"
  by (simp add: OllamaProvider_generate_completion_def nonstream_result_def refused_def
      error_return_def asc_def)

lemma openai_no_key:
  "provider_generate_completion lib (OpenAI None post) model prompt False
     = PGen [] (Inr (PStr (asc ''OpenAI API key not provided. Cannot generate completion.'')))"
  by (simp add: OpenAIProvider_generate_completion_def falsy_text_def no_credential_def)

text \<open>
  C1. With \<^verbatim>\<open>stream=False\<close>, the six providers that call a backend and the gateway do
  not return a string: each returns a generator object, whatever the backend answers. So
  does the local provider when the connection is refused (the \<^verbatim>\<open>Error:\<close> text is only
  the value of the generator's \<^verbatim>\<open>return\<close>), and a cloud provider without its key, whose
  message is neither empty nor prefixed with \<^verbatim>\<open>Error:\<close>.
\<close>

theorem nonstreaming_returns_generator:
  "is_generator (OllamaProvider_generate_completion lib post model prompt False) \<and>
   is_generator (OpenAIProvider_generate_completion lib api_key post model prompt False) \<and>
   is_generator (AnthropicProvider_generate_completion lib api_key post model prompt False) \<and>
   is_generator (GeminiProvider_generate_completion lib api_key post model prompt False) \<and>
   is_generator (AzureOpenAIProvider_generate_completion lib api_key endpoint post model prompt False) \<and>
   is_generator (HuggingFaceProvider_generate_completion api_key post model prompt False) \<and>
   is_generator (AIService_generate_completion svc model prompt provider False) \<and>
   provider_generate_completion lib (Ollama refused) model prompt False
     = PGen [] (Inr (PStr (asc ''Error: Connection refused''))) \<and>
   provider_generate_completion lib (OpenAI None post) model prompt False
     = PGen [] (Inr (PStr (asc ''OpenAI API key not provided. Cannot generate completion.'')))"
  by (intro conjI ollama_generator openai_generator anthropic_generator gemini_generator
      azure_generator huggingface_generator gateway_generator ollama_refused openai_no_key)

subsection \<open>The team\<close>

lemma list_models_empty_service:
  "AIService_list_models (empty_service lib env) (Some ''ollama'') = Inr []"
  "AIService_list_models (empty_service lib env) (Some ''gemini'') = Inr []"
  "AIService_list_models (empty_service lib env) (Some ''openai'')
     = Inr [\<lparr>name = asc ''gpt-4'', description = []\<rparr>]"
  by (simp_all add: AIService_list_models_def resolve_provider_def empty_service_def
      ollama_empty_def gemini_empty_def openai_up_def)

lemma select_two:
  "select_models (empty_service lib env) [''ollama'', ''openai''] 0 [] = ([''openai''], Inr [])"
  by (simp add: select_models.simps list_models_empty_service)

lemma select_three:
  "select_models (empty_service lib env) [''ollama'', ''gemini'', ''openai''] 0 []
     = ([''gemini'', ''openai''], Inr [asc ''gpt-4''])"
  by (simp add: select_models.simps list_models_empty_service)

text \<open>
  C3. With the models omitted, \<^verbatim>\<open>collaborate\<close> does not drop every provider without
  models: removing an entry from the list while the loop reads it makes the loop skip the
  entry that follows. Of \<^verbatim>\<open>ollama\<close>, \<^verbatim>\<open>gemini\<close> (both without models) and
  \<^verbatim>\<open>openai\<close> (one model), \<^verbatim>\<open>gemini\<close> stays in the list; of \<^verbatim>\<open>ollama\<close> and
  \<^verbatim>\<open>openai\<close>, \<^verbatim>\<open>openai\<close> is never asked for its models. Both calls end in the
  length error.
\<close>

theorem collaborate_skips_next_provider:
  "AIService_list_models (empty_service lib env) (Some ''ollama'') = Inr [] \<and>
   AIService_list_models (empty_service lib env) (Some ''gemini'') = Inr [] \<and>
   AIService_list_models (empty_service lib env) (Some ''openai'')
     = Inr [\<lparr>name = asc ''gpt-4'', description = []\<rparr>] \<and>
   res_providers (resolve_selection (empty_service lib env)
      (Some [''ollama'', ''gemini'', ''openai'']) None) = [''gemini'', ''openai''] \<and>
   res_models (resolve_selection (empty_service lib env)
      (Some [''ollama'', ''gemini'', ''openai'']) None) = Inr [asc ''gpt-4''] \<and>
   outcome (collaborate repr (empty_service lib env) prompt
      (Some [''ollama'', ''gemini'', ''openai'']) None) = Inl mismatch_error \<and>
   res_providers (resolve_selection (empty_service lib env)
      (Some [''ollama'', ''openai'']) None) = [''openai''] \<and>
   res_models (resolve_selection (empty_service lib env)
      (Some [''ollama'', ''openai'']) None) = Inr [] \<and>
   outcome (collaborate repr (empty_service lib env) prompt
      (Some [''ollama'', ''openai'']) None) = Inl mismatch_error"
  by (simp add: list_models_empty_service resolve_selection_def collaborate_def falsy_list_def
      select_two select_three)

text \<open>
  The list \<^verbatim>\<open>collaborate\<close> leaves to its caller is never longer than the one it was
  given, and it is shorter whenever the first listed provider has no models.
\<close>

lemma select_models_length:
  "length (fst (select_models svc names i models)) \<le> length names"
proof (induction svc names i models rule: select_models.induct)
  case (1 svc names i models)
  note unfold = select_models.simps [of svc names i models]
  show ?case
  proof (cases "i < length names")
    case False
    then show ?thesis by (simp add: unfold)
  next
    case True
    show ?thesis
    proof (cases "AIService_list_models svc (Some (names ! i))")
      case (Inl e)
      then show ?thesis using True by (simp add: unfold)
    next
      case (Inr ms)
      show ?thesis
      proof (cases ms)
        case Nil
        have eq: "select_models svc names i models
            = select_models svc (remove1 (names ! i) names) (Suc i) models"
          using True Inr Nil by (simp add: unfold)
        have "length (fst (select_models svc (remove1 (names ! i) names) (Suc i) models))
            \<le> length (remove1 (names ! i) names)"
          using "1.IH"(1) [OF True refl Inr Nil] .
        also have "\<dots> \<le> length names" by (simp add: length_remove1)
        finally show ?thesis by (simp only: eq)
      next
        case (Cons m ms')
        have eq: "select_models svc names i models
            = select_models svc names (Suc i) (models @ [name m])"
          using True Inr Cons by (simp add: unfold)
        show ?thesis using "1.IH"(2) [OF True refl Inr Cons] by (simp only: eq)
      qed
    qed
  qed
qed

lemma collaborate_removes_first_empty:
  assumes "AIService_list_models svc (Some p) = Inr []"
  shows "\<exists>names'. caller_providers (collaborate repr svc prompt (Some (p # rest)) None) = Some names' \<and>
           length names' < length (p # rest)"
proof -
  have s: "select_models svc (p # rest) 0 [] = select_models svc rest (Suc 0) []"
    using assms by (simp add: select_models.simps [of svc "p # rest" 0])
  obtain ps r where sel: "select_models svc rest (Suc 0) [] = (ps, r)"
    by (cases "select_models svc rest (Suc 0) []")
  have "length ps \<le> length rest" using select_models_length [of svc rest "Suc 0" "[]"] sel by simp
  moreover have "res_caller (resolve_selection svc (Some (p # rest)) None) = Some ps"
    using s sel by (simp add: resolve_selection_def falsy_list_def)
  moreover have "caller_providers (collaborate repr svc prompt (Some (p # rest)) None)
      = res_caller (resolve_selection svc (Some (p # rest)) None)"
    by (simp add: collaborate_def Let_def split: sum.splits option.splits prod.splits)
  ultimately show ?thesis by simp
qed

text \<open>
  C10. There is a call of \<^verbatim>\<open>collaborate\<close> with a list of providers, the models omitted
  and a listed provider without models (\<^verbatim>\<open>ollama\<close>) that removes entries from the
  caller's own list: passed as \<^verbatim>\<open>ollama\<close>, \<^verbatim>\<open>openai\<close>, the caller's list is
  \<^verbatim>\<open>openai\<close> alone after the call; passed as \<^verbatim>\<open>ollama\<close>, \<^verbatim>\<open>gemini\<close>,
  \<^verbatim>\<open>openai\<close>, it is \<^verbatim>\<open>gemini\<close>, \<^verbatim>\<open>openai\<close>.
\<close>

theorem collaborate_mutates_callers_list:
  "AIService_list_models (empty_service example_lib example_env) (Some ''ollama'') = Inr [] \<and>
   caller_providers (collaborate (\<lambda>v. []) (empty_service example_lib example_env) (asc ''hi'')
      (Some [''ollama'', ''openai'']) None) = Some [''openai''] \<and>
   caller_providers (collaborate (\<lambda>v. []) (empty_service example_lib example_env) (asc ''hi'')
      (Some [''ollama'', ''gemini'', ''openai'']) None) = Some [''gemini'', ''openai'']"
  by (simp add: list_models_empty_service resolve_selection_def collaborate_def falsy_list_def
      select_two select_three)

text \<open>
  C8. Whenever the providers and the models differ in number after resolution,
  \<^verbatim>\<open>collaborate\<close> raises the \<^verbatim>\<open>ValueError\<close> and has issued no call of
  \<^verbatim>\<open>generate_completion\<close>.
\<close>

theorem collaborate_length_mismatch:
  assumes "res_models (resolve_selection svc names models) = Inr ms"
      and "length (res_providers (resolve_selection svc names models)) \<noteq> length ms"
  shows "outcome (collaborate repr svc prompt names models) = Inl mismatch_error \<and>
         generation_calls (collaborate repr svc prompt names models) = []"
  using assms by (simp add: collaborate_def Let_def)

theorem collaborate_length_mismatch_witness:
  "res_models (resolve_selection (empty_service example_lib example_env) (Some [''a'', ''b''])
     (Some [asc ''m1''])) = Inr [asc ''m1''] \<and>
   length (res_providers (resolve_selection (empty_service example_lib example_env)
     (Some [''a'', ''b'']) (Some [asc ''m1'']))) = 2 \<and>
   outcome (collaborate (\<lambda>v. []) (empty_service example_lib example_env) (asc ''hi'')
     (Some [''a'', ''b'']) (Some [asc ''m1''])) = Inl mismatch_error \<and>
   generation_calls (collaborate (\<lambda>v. []) (empty_service example_lib example_env) (asc ''hi'')
     (Some [''a'', ''b'']) (Some [asc ''m1''])) = []"
proof -
  have r: "resolve_selection (empty_service example_lib example_env) (Some [''a'', ''b''])
      (Some [asc ''m1''])
     = \<lparr>res_caller = Some [''a'', ''b''], res_providers = [''a'', ''b''],
        res_models = Inr [asc ''m1'']\<rparr>"
    by (simp add: resolve_selection_def falsy_list_def)
  show ?thesis
    using collaborate_length_mismatch [of "empty_service example_lib example_env"
        "Some [''a'', ''b'']" "Some [asc ''m1'']" "[asc ''m1'']" "\<lambda>v. []" "asc ''hi''"]
    by (simp add: r)
qed

lemma meta_none_down:
  "meta_analysis (down_service fb lib env) mp meta_providers = None"
  by (simp add: meta_providers_def down_service_def ollama_down_def)

lemma responses_down:
  "collect_responses (down_service True lib env) prompt [''fallback''] [asc ''fallback-unix'']
   = [\<lparr>ta_provider = ''fallback'', ta_model = asc ''fallback-unix'',
       ta_response = PGen [] (Inr (PStr (get_fallback_response env prompt)))\<rparr>]"
  by (simp add: collect_responses_def AIService_generate_completion_def
      resolve_provider_def down_service_def FallbackProvider_def
      FallbackProvider_generate_completion_def)

lemma resolve_given:
  "resolve_selection svc (Some (p # ps)) (Some (m # ms))
   = \<lparr>res_caller = Some (p # ps), res_providers = p # ps, res_models = Inr (m # ms)\<rparr>"
  by (simp add: resolve_selection_def falsy_list_def)

text \<open>
  C9. With no synthesizer reachable (only \<^verbatim>\<open>ollama\<close>, down, and \<^verbatim>\<open>fallback\<close> are
  registered), \<^verbatim>\<open>collaborate\<close> does not return the longest answer: the one collected
  answer is the generator object the gateway returned, and \<^verbatim>\<open>len\<close> of it raises
  \<^verbatim>\<open>TypeError\<close>.
\<close>

theorem collaborate_longest_raises:
  "outcome (collaborate repr (down_service True lib env) prompt (Some [''fallback''])
     (Some [asc ''fallback-unix'']))
   = Inl (TypeError (asc ''object of type generator has no len()'')) \<and>
   map ta_response (collect_responses (down_service True lib env) prompt [''fallback'']
     [asc ''fallback-unix''])
   = [PGen [] (Inr (PStr (get_fallback_response env prompt)))]"
  by (simp add: collaborate_def resolve_given meta_none_down responses_down max_by_len_def)

lemma max_by_len_generators:
  "list_all (\<lambda>r. is_generator (ta_response r)) rs \<Longrightarrow> isl (max_by_len rs)"
  by (cases rs) (auto simp: max_by_len_def elim!: is_generator.elims)

lemma collect_responses_generators:
  "list_all (\<lambda>r. is_generator (ta_response r)) (collect_responses svc prompt names models)"
  by (simp add: collect_responses_def list_all_iff gateway_generator split: prod.splits)

lemma meta_analysis_None:
  "meta_analysis svc mp ps = None \<Longrightarrow> meta_analysis svc mp' ps = None"
  by (induction ps) (auto split: option.splits sum.splits list.splits if_splits)

text \<open>
  More generally: whenever the loop over the synthesizers finds none, \<^verbatim>\<open>collaborate\<close>
  ends in an exception, since every collected answer is a generator object.
\<close>

lemma collaborate_without_synthesizer_raises:
  assumes "meta_analysis svc mp meta_providers = None"
  shows "isl (outcome (collaborate repr svc prompt names models))"
proof -
  have m: "\<And>mp'. meta_analysis svc mp' meta_providers = None"
    using assms by (rule meta_analysis_None)
  show ?thesis
    using max_by_len_generators [OF collect_responses_generators]
    by (auto simp: collaborate_def Let_def m isl_map_sum split: sum.splits)
qed

subsection \<open>The streaming contract of the providers\<close>

lemma not_done_error [simp]: "\<not> is_done (error_event m)"
  by (simp add: is_done_def error_event_def)

lemma not_done_parse_error [simp]: "\<not> is_done (parse_error_event e)"
  by (simp add: parse_error_event_def)

lemma not_done_delta [simp]: "\<not> is_done (delta_event model c)"
  by (simp add: is_done_def delta_event_def)

lemma quiet_simps [simp]:
  "quiet []"
  "quiet (ev # evs) = (\<not> is_done ev \<and> quiet evs)"
  "quiet (evs @ evs') = (quiet evs \<and> quiet evs')"
  by (simp_all add: quiet_def)

lemma done_only_last_simps [simp]:
  "done_only_last []"
  "done_only_last [ev]"
  by (simp_all add: done_only_last_def)

lemma quiet_done_only_last: "quiet evs \<Longrightarrow> done_only_last evs"
  by (cases evs rule: rev_cases) (simp_all add: done_only_last_def)

lemma done_only_last_append: "quiet evs \<Longrightarrow> done_only_last evs' \<Longrightarrow> done_only_last (evs @ evs')"
proof (cases evs' rule: rev_cases)
  case Nil
  assume "quiet evs"
  then show ?thesis using Nil by (simp add: quiet_done_only_last)
next
  case (snoc ys y)
  assume "quiet evs" "done_only_last evs'"
  then show ?thesis using snoc by (simp add: done_only_last_def butlast_append)
qed

lemma done_only_last_snoc [simp]: "done_only_last (evs @ [ev]) = quiet evs"
  by (simp add: done_only_last_def)

lemma pass_ok_prepend: "quiet evs \<Longrightarrow> pass_ok (evs', e) \<Longrightarrow> pass_ok (evs @ evs', e)"
  by (cases e) (simp_all add: done_only_last_append)

lemma lines_loop_ok:
  assumes "\<And>line. pass_ok (body line)"
  shows "pass_ok (lines_loop body lines)"
proof (induction lines)
  case Nil
  show ?case by simp
next
  case (Cons line rest)
  show ?case
  proof (cases "line = []")
    case True
    with Cons show ?thesis by simp
  next
    case False
    obtain evs e where b: "body line = (evs, e)" by (cases "body line")
    have ok: "pass_ok (evs, e)" using assms [of line] b by simp
    show ?thesis
    proof (cases e)
      case Continue
      obtain evs' e' where l: "lines_loop body rest = (evs', e')" by (cases "lines_loop body rest")
      have "quiet evs" using ok Continue by simp
      moreover have "pass_ok (evs', e')" using Cons.IH l by simp
      ultimately have "pass_ok (evs @ evs', e')" by (rule pass_ok_prepend)
      then show ?thesis using False b Continue l by simp
    next
      case Break
      then show ?thesis using False b ok by simp
    next
      case (Raise x)
      then show ?thesis using False b ok by simp
    qed
  qed
qed

lemma stream_lines_ok:
  assumes "\<And>line. pass_ok (body line)"
  shows "done_only_last (stream_lines body r)"
proof -
  obtain evs e where l: "lines_loop body (iter_lines r) = (evs, e)"
    by (cases "lines_loop body (iter_lines r)")
  have ok: "pass_ok (evs, e)" using lines_loop_ok [of body, OF assms, of "iter_lines r"] l by simp
  show ?thesis
  proof (cases e)
    case Continue
    then have "quiet evs" using ok by simp
    then show ?thesis using l Continue
      by (simp add: stream_lines_def quiet_done_only_last split: option.splits)
  next
    case Break
    then show ?thesis using l ok by (simp add: stream_lines_def)
  next
    case (Raise x)
    then have "quiet evs" using ok by simp
    then show ?thesis using l Raise by (simp add: stream_lines_def)
  qed
qed



lemma bind_ok [simp]:
  "pass_ok_or_raised (bind x f) = (\<forall>v. x = Inr v \<longrightarrow> pass_ok_or_raised (f v))"
  by (cases x) (simp_all add: bind_def)

lemma guarded_ok: "pass_ok_or_raised x \<Longrightarrow> pass_ok (guarded x)"
  by (cases x) (simp_all add: guarded_def)

lemma skip_ok [simp]: "pass_ok_or_raised skip"
  by (simp add: skip_def)

lemma openai_line_ok: "pass_ok (openai_line lib model line)"
  unfolding openai_line_def
  by (rule guarded_ok) (simp add: Let_def done_event_def)

lemma gemini_line_ok: "pass_ok (gemini_line lib model line)"
  unfolding gemini_line_def
  by (rule guarded_ok) (simp add: Let_def)

lemma azure_line_ok: "pass_ok (azure_line lib model line)"
  unfolding azure_line_def
  by (rule guarded_ok) (simp add: Let_def)

lemma bind_Inr: "bind x f = Inr r \<Longrightarrow> \<exists>v. x = Inr v \<and> f v = Inr r"
  by (cases x) (simp_all add: bind_def)

lemma anthropic_content_quiet: "anthropic_content model j = Inr evs \<Longrightarrow> quiet evs"
  unfolding anthropic_content_def
  by (auto dest!: bind_Inr split: if_splits)

lemma anthropic_line_ok: "pass_ok (anthropic_line lib model line)"
  unfolding anthropic_line_def
  by (rule guarded_ok) (auto simp: Let_def anthropic_content_quiet split: sum.splits)












lemma done_only_last_filter: "done_only_last evs \<Longrightarrow> length (filter is_done evs) \<le> 1"
proof (cases evs rule: rev_cases)
  case Nil
  then show ?thesis by simp
next
  case (snoc ys y)
  assume "done_only_last evs"
  then have "quiet ys" using snoc by simp
  then have "filter is_done ys = []" by (simp add: quiet_def list_all_iff filter_empty_conv)
  then show ?thesis using snoc by simp
qed


lemma is_error_error [simp]: "is_error (error_event m)"
  by (simp add: is_error_def error_event_def)

lemma is_done_done [simp]: "is_done (done_event model)"
  by (simp add: is_done_def done_event_def)

lemma closed_snoc_error [simp]: "closed_seq (evs @ [error_event m])"
  by (simp add: closed_seq_def)

lemma closed_single_error [simp]: "closed_seq [error_event m]"
  by (simp add: closed_seq_def)




lemma break_done_prepend: "break_done (evs', e) \<Longrightarrow> break_done (evs @ evs', e)"
  by (cases e) simp_all

lemma lines_loop_break_done:
  assumes "\<And>line. break_done (body line)"
  shows "break_done (lines_loop body lines)"
proof (induction lines)
  case Nil
  show ?case by simp
next
  case (Cons line rest)
  show ?case
  proof (cases "line = []")
    case True
    with Cons show ?thesis by simp
  next
    case False
    obtain evs e where b: "body line = (evs, e)" by (cases "body line")
    have ok: "break_done (evs, e)" using assms [of line] b by simp
    show ?thesis
    proof (cases e)
      case Continue
      obtain evs' e' where l: "lines_loop body rest = (evs', e')" by (cases "lines_loop body rest")
      have "break_done (evs', e')" using Cons.IH l by simp
      then have "break_done (evs @ evs', e')" by (rule break_done_prepend)
      then show ?thesis using False b Continue l by simp
    next
      case Break
      then show ?thesis using False b ok by simp
    next
      case (Raise x)
      then show ?thesis using False b ok by simp
    qed
  qed
qed


lemma bind_break_done [simp]:
  "break_done_or_raised (bind x f) = (\<forall>v. x = Inr v \<longrightarrow> break_done_or_raised (f v))"
  by (cases x) (simp_all add: bind_def)

lemma guarded_break_done: "break_done_or_raised x \<Longrightarrow> break_done (guarded x)"
  by (cases x) (simp_all add: guarded_def)

lemma skip_break_done [simp]: "break_done_or_raised skip"
  by (simp add: skip_def)

lemma openai_line_break_done: "break_done (openai_line lib model line)"
  unfolding openai_line_def
  by (rule guarded_break_done) (simp add: Let_def)

lemma gemini_line_break_done: "break_done (gemini_line lib model line)"
  unfolding gemini_line_def
  by (rule guarded_break_done) (simp add: Let_def)

lemma azure_line_break_done: "break_done (azure_line lib model line)"
  unfolding azure_line_def
  by (rule guarded_break_done) (simp add: Let_def)

lemma anthropic_line_break_done: "break_done (anthropic_line lib model line)"
  unfolding anthropic_line_def
  by (rule guarded_break_done) (auto simp: Let_def split: sum.splits)





lemma chunks_of_empty_iff: "chunks_of r = [] \<longleftrightarrow> r = []"
proof -
  have n: "0 < chunk_size_of r" by (rule chunk_size_pos)
  have "(length r + chunk_size_of r - 1 < chunk_size_of r) = (length r = 0)"
    using n by arith
  then have "(length r + chunk_size_of r - 1) div chunk_size_of r = 0 \<longleftrightarrow> length r = 0"
    using n by (simp add: div_eq_0_iff)
  then have "length (chunks_of r) = 0 \<longleftrightarrow> length r = 0"
    by (simp only: length_chunks_of)
  then show ?thesis by simp
qed

lemma chunks_of_Nil [simp]: "chunks_of [] = []"
  by (simp add: chunks_of_empty_iff)

lemma enumerate_Nil_iff [simp]: "enumerate n xs = [] \<longleftrightarrow> xs = []"
  by (cases xs) simp_all















text \<open>
  The signal of the four cloud providers: a body holding the line \<^verbatim>\<open>data: [DONE]\<close> does
  not end silently; its sequence holds exactly one event with \<^verbatim>\<open>done\<close> true, the last
  one.
\<close>

lemma lines_loop_reaches_break:
  assumes "\<And>line. break_done (body line)"
      and "line \<in> set lines" and "line \<noteq> []" and "snd (body line) = Break"
  shows "snd (lines_loop body lines) = Break"
  using assms(2)
proof (induction lines)
  case Nil
  then show ?case by simp
next
  case (Cons l rest)
  show ?case
  proof (cases "l = []")
    case True
    then show ?thesis using Cons assms(3) by auto
  next
    case False
    obtain evs e where b: "body l = (evs, e)" by (cases "body l")
    show ?thesis
    proof (cases e)
      case Continue
      then have "l \<noteq> line" using b assms(4) by auto
      then have "snd (lines_loop body rest) = Break" using Cons by auto
      then show ?thesis using False b Continue by (cases "lines_loop body rest") simp
    next
      case Break
      then show ?thesis using False b by simp
    next
      case (Raise x)
      then show ?thesis using assms(1) [of l] b by simp
    qed
  qed
qed

lemma signalled_stream_has_one_done:
  assumes bd: "\<And>line. break_done (body line)"
      and ok: "\<And>line. pass_ok (body line)"
      and line: "line \<in> set (iter_lines r)" "line \<noteq> []" "snd (body line) = Break"
  shows "length (filter is_done (stream_lines body r)) = 1 \<and> is_done (last (stream_lines body r))"
proof -
  obtain evs e where l: "lines_loop body (iter_lines r) = (evs, e)"
    by (cases "lines_loop body (iter_lines r)")
  have e: "e = Break" using lines_loop_reaches_break [of body line "iter_lines r", OF bd line] l by simp
  have "break_done (evs, e)" using lines_loop_break_done [of body, OF bd, of "iter_lines r"] l by simp
  then have last: "evs \<noteq> [] \<and> is_done (last evs)" using e by simp
  have s: "stream_lines body r = evs" using l e by (simp add: stream_lines_def)
  have d: "done_only_last evs" using stream_lines_ok [of body r, OF ok] s by simp
  have "last evs \<in> set evs" using last by simp
  then have "\<not> (\<forall>x \<in> set evs. \<not> is_done x)" using last by blast
  then have "filter is_done evs \<noteq> []" by (simp add: filter_empty_conv)
  then have "0 < length (filter is_done evs)" by simp
  moreover have "length (filter is_done evs) \<le> 1" using d by (rule done_only_last_filter)
  ultimately have "length (filter is_done evs) = 1" by linarith
  then show ?thesis using s last by simp
qed

lemma openai_done_line:
  "decode_utf8 lib line = Inr (asc ''data: [DONE]'') \<Longrightarrow>
   openai_line lib model line = ([done_event model], Break)"
  by (simp add: openai_line_def guarded_def bind_def startswith_def asc_def done_marker_def)

lemma gemini_done_line:
  "decode_utf8 lib line = Inr (asc ''data: [DONE]'') \<Longrightarrow>
   gemini_line lib model line = ([done_event model], Break)"
  by (simp add: gemini_line_def guarded_def bind_def startswith_def asc_def done_marker_def)

lemma strip_done: "strip (asc '' [DONE]'') = asc ''[DONE]''"
  by (simp add: strip_def asc_def is_space_def)

lemma azure_done_line:
  "decode_utf8 lib line = Inr (asc ''data: [DONE]'') \<Longrightarrow>
   azure_line lib model line = ([done_event model], Break)"
  using strip_done
  by (simp add: azure_line_def guarded_def bind_def startswith_def asc_def done_marker_def)

lemma anthropic_done_line:
  "decode_utf8 lib line = Inr (asc ''data: [DONE]'') \<Longrightarrow>
   anthropic_line lib model line = ([done_event model], Break)"
  using strip_done
  by (simp add: anthropic_line_def guarded_def bind_def startswith_def asc_def done_marker_def)

lemma openai_signal_exactly_one_done:
  assumes "\<not> falsy_text api_key"
      and "post model prompt True = Responded r" and "status_code r = 200"
      and "line \<in> set (iter_lines r)" and "line \<noteq> []"
      and "decode_utf8 lib line = Inr (asc ''data: [DONE]'')"
  shows "length (filter is_done (provider_stream lib (OpenAI api_key post) model prompt)) = 1 \<and>
         is_done (last (provider_stream lib (OpenAI api_key post) model prompt))"
proof -
  have "snd (openai_line lib model line) = Break"
    using assms(6) by (simp add: openai_done_line)
  then have "length (filter is_done (stream_lines (openai_line lib model) r)) = 1 \<and>
      is_done (last (stream_lines (openai_line lib model) r))"
    using assms(4,5)
    by (intro signalled_stream_has_one_done openai_line_break_done openai_line_ok)
  then show ?thesis using assms(1,2,3)
    by (simp add: provider_stream_def OpenAIProvider_generate_completion_def stream_result_def)
qed

lemma anthropic_signal_exactly_one_done:
  assumes "\<not> falsy_text api_key"
      and "post model prompt True = Responded r" and "status_code r = 200"
      and "line \<in> set (iter_lines r)" and "line \<noteq> []"
      and "decode_utf8 lib line = Inr (asc ''data: [DONE]'')"
  shows "length (filter is_done (provider_stream lib (Anthropic api_key post) model prompt)) = 1 \<and>
         is_done (last (provider_stream lib (Anthropic api_key post) model prompt))"
proof -
  have "snd (anthropic_line lib model line) = Break"
    using assms(6) by (simp add: anthropic_done_line)
  then have "length (filter is_done (stream_lines (anthropic_line lib model) r)) = 1 \<and>
      is_done (last (stream_lines (anthropic_line lib model) r))"
    using assms(4,5)
    by (intro signalled_stream_has_one_done anthropic_line_break_done anthropic_line_ok)
  then show ?thesis using assms(1,2,3)
    by (simp add: provider_stream_def AnthropicProvider_generate_completion_def stream_result_def)
qed

lemma gemini_signal_exactly_one_done:
  assumes "\<not> falsy_text api_key"
      and "post model prompt True = Responded r" and "status_code r = 200"
      and "line \<in> set (iter_lines r)" and "line \<noteq> []"
      and "decode_utf8 lib line = Inr (asc ''data: [DONE]'')"
  shows "length (filter is_done (provider_stream lib (Gemini api_key post) model prompt)) = 1 \<and>
         is_done (last (provider_stream lib (Gemini api_key post) model prompt))"
proof -
  have "snd (gemini_line lib model line) = Break"
    using assms(6) by (simp add: gemini_done_line)
  then have "length (filter is_done (stream_lines (gemini_line lib model) r)) = 1 \<and>
      is_done (last (stream_lines (gemini_line lib model) r))"
    using assms(4,5)
    by (intro signalled_stream_has_one_done gemini_line_break_done gemini_line_ok)
  then show ?thesis using assms(1,2,3)
    by (simp add: provider_stream_def GeminiProvider_generate_completion_def stream_result_def)
qed

lemma azure_signal_exactly_one_done:
  assumes "\<not> falsy_text api_key \<and> \<not> falsy_text endpoint"
      and "post model prompt True = Responded r" and "status_code r = 200"
      and "line \<in> set (iter_lines r)" and "line \<noteq> []"
      and "decode_utf8 lib line = Inr (asc ''data: [DONE]'')"
  shows "length (filter is_done (provider_stream lib (AzureOpenAI api_key endpoint post) model prompt)) = 1 \<and>
         is_done (last (provider_stream lib (AzureOpenAI api_key endpoint post) model prompt))"
proof -
  have "snd (azure_line lib model line) = Break"
    using assms(6) by (simp add: azure_done_line)
  then have "length (filter is_done (stream_lines (azure_line lib model) r)) = 1 \<and>
      is_done (last (stream_lines (azure_line lib model) r))"
    using assms(4,5)
    by (intro signalled_stream_has_one_done azure_line_break_done azure_line_ok)
  then show ?thesis using assms(1,2,3)
    by (simp add: provider_stream_def AzureOpenAIProvider_generate_completion_def stream_result_def)
qed













end
